theory Spec2Isabelle
  imports Complex_Main "HOL-Library.Word"
begin

section \<open>Tensors and the activation layers of inceptionv1.py\<close>

text \<open>
  A tensor is its shape and its elements in row-major order. The element type is a
  parameter: an ordered field stands for the framework's floating-point numbers, whose
  rounding is not modelled. Comparisons with zero, which is all the activation layers
  do, are exact in either reading.
\<close>

record 'a tensor =
  shape :: "nat list"
  data :: "'a list"

datatype error =
    AssertionError
  | ValueError string
  | IndexError
  | TypeError
  | AttributeError string
  | NameError string
  | RuntimeError
  | LibraryError string

text \<open>
  \<^verbatim>\<open>F.relu(tensor)\<close>, the body of \<^verbatim>\<open>ReluLayer.forward\<close>. The framework computes it
  elementwise as the larger of zero and the element.
\<close>

definition F_relu :: "('a::linordered_field) tensor \<Rightarrow> 'a tensor" where
  "F_relu t = t\<lparr>data := map (\<lambda>v. max 0 v) (data t)\<rparr>"

definition ReluLayer_forward :: "('a::linordered_field) tensor \<Rightarrow> 'a tensor" where
  "ReluLayer_forward t = F_relu t"

text \<open>
  The derivative the framework's autograd uses for \<^verbatim>\<open>F.relu\<close>: one where the input
  is positive and zero elsewhere, the origin included.
\<close>

definition relu_grad :: "('a::linordered_field) \<Rightarrow> 'a" where
  "relu_grad v = (if 0 < v then 1 else 0)"

text \<open>\<^verbatim>\<open>input_tensor.clamp(min=0)\<close>: an element below the bound is replaced by it.\<close>

definition clamp_min :: "('a::linordered_field) tensor \<Rightarrow> 'a \<Rightarrow> 'a tensor" where
  "clamp_min t lo = t\<lparr>data := map (\<lambda>v. if v < lo then lo else v) (data t)\<rparr>"

text \<open>The autograd context of \<^verbatim>\<open>RedirectedReLU\<close>: the tensors saved for the backward pass.\<close>

record 'a ctx =
  saved_tensors :: "'a tensor list"

definition save_for_backward :: "'a ctx \<Rightarrow> 'a tensor \<Rightarrow> 'a ctx" where
  "save_for_backward c t = c\<lparr>saved_tensors := [t]\<rparr>"

text \<open>
  \<^verbatim>\<open>RedirectedReLU.forward(ctx, input_tensor)\<close> saves the input and returns the clamped
  tensor; the updated context is returned beside the output.
\<close>

definition RedirectedReLU_forward ::
  "('a::linordered_field) ctx \<Rightarrow> 'a tensor \<Rightarrow> 'a ctx \<times> 'a tensor" where
  "RedirectedReLU_forward c input_tensor =
     (save_for_backward c input_tensor, clamp_min input_tensor 0)"

text \<open>
  \<^verbatim>\<open>RedirectedReLU.backward(ctx, grad_output)\<close>. The saved tuple is unpacked into one
  tensor (anything else is a ValueError of the unpacking), the gradient is cloned, and
  the elements selected by the mask \<^verbatim>\<open>input_tensor < 0\<close> are multiplied by
  \<^verbatim>\<open>1e-1\<close>. A boolean mask whose shape differs from the indexed tensor's raises
  IndexError.
\<close>

definition RedirectedReLU_backward ::
  "('a::linordered_field) ctx \<Rightarrow> 'a tensor \<Rightarrow> error + 'a tensor" where
  "RedirectedReLU_backward c grad_output =
     (case saved_tensors c of
        [input_tensor] \<Rightarrow>
          (let grad_input = grad_output in
           if shape input_tensor \<noteq> shape grad_input
              \<or> length (data input_tensor) \<noteq> length (data grad_input)
           then Inl IndexError
           else Inr (grad_input\<lparr>data :=
                  map (\<lambda>(x, g). if x < 0 then g * (1 / 10) else g)
                      (zip (data input_tensor) (data grad_input))\<rparr>))
      | _ \<Rightarrow> Inl (ValueError ''unpack''))"

text \<open>\<^verbatim>\<open>RedirectedReluLayer.forward\<close>: the output of \<^verbatim>\<open>RedirectedReLU.apply\<close>.\<close>

definition RedirectedReluLayer_forward :: "('a::linordered_field) tensor \<Rightarrow> 'a tensor" where
  "RedirectedReluLayer_forward t = snd (RedirectedReLU_forward \<lparr>saved_tensors = []\<rparr> t)"

section \<open>The layers and the dataflow graph of InceptionV1\<close>

text \<open>
  The modules \<^verbatim>\<open>InceptionV1\<close> binds to attributes: the framework's convolution and
  linear layers, with the keyword arguments of their constructors, and the layer classes
  of the file that \<^verbatim>\<open>add_layers\<close> instantiates. \<^verbatim>\<open>LocalResponseNormLayer\<close> is
  defined in the file as well.
\<close>

datatype module =
    Conv2d (in_channels: nat) (out_channels: nat) (kernel_size: "nat \<times> nat")
      (stride: "nat \<times> nat") (groups: nat) (bias: bool)
  | Linear (in_features: nat) (out_features: nat) (linear_bias: bool)
  | ReluLayer
  | RedirectedReluLayer
  | MaxPool2dLayer
  | CatLayer
  | SoftMaxLayer
  | LocalResponseNormLayer

text \<open>
  The padding value of \<^verbatim>\<open>F.pad\<close>: the default (constant zero) or
  \<^verbatim>\<open>float("-inf")\<close>.
\<close>

datatype pad_value = Zero_default | Neg_inf

text \<open>
  The right-hand sides that occur in \<^verbatim>\<open>InceptionV1.forward\<close>. A variable is its name.
  \<^item> \<^verbatim>\<open>F.pad(v, pads)\<close> and \<^verbatim>\<open>F.pad(v, pads, value=float("-inf"))\<close>;
  \<^item> \<^verbatim>\<open>F.local_response_norm(v, size, alpha, beta, k)\<close>;
  \<^item> \<^verbatim>\<open>F.avg_pool2d(v, kernel_size, stride, padding, ceil_mode, count_include_pad)\<close>;
  \<^item> \<^verbatim>\<open>torch.reshape(input=v, shape)\<close>;
  \<^item> \<^verbatim>\<open>self.m(v)\<close>;
  \<^item> \<^verbatim>\<open>self.m(v, kernel_size, stride, padding, ceil_mode)\<close>;
  \<^item> \<^verbatim>\<open>self.m((v1, ..., vn), dim)\<close>.
\<close>

datatype call =
    F_pad string "nat list" pad_value
  | F_local_response_norm string nat rat rat rat
  | F_avg_pool2d string "nat \<times> nat" "nat \<times> nat" "nat list" bool bool
  | torch_reshape string "int list"
  | Self_apply string string
  | Self_pool string string "nat \<times> nat" "nat \<times> nat" nat bool
  | Self_cat string "string list" nat

type_synonym stmt = "string \<times> call"

subsection \<open>The constructor\<close>

text \<open>
  Lines 117 to 575: the attribute assignments of \<^verbatim>\<open>InceptionV1.__init__\<close>, in order.
\<close>

definition init_modules :: "(string \<times> module) list" where
  "init_modules =
    [(''conv2d0_pre_relu_conv'', Conv2d 3 64 (7, 7) (2, 2) 1 True),
     (''conv2d1_pre_relu_conv'', Conv2d 64 64 (1, 1) (1, 1) 1 True),
     (''conv2d2_pre_relu_conv'', Conv2d 64 192 (3, 3) (1, 1) 1 True),
     (''mixed3a_1x1_pre_relu_conv'', Conv2d 192 64 (1, 1) (1, 1) 1 True),
     (''mixed3a_3x3_bottleneck_pre_relu_conv'', Conv2d 192 96 (1, 1) (1, 1) 1 True),
     (''mixed3a_5x5_bottleneck_pre_relu_conv'', Conv2d 192 16 (1, 1) (1, 1) 1 True),
     (''mixed3a_pool_reduce_pre_relu_conv'', Conv2d 192 32 (1, 1) (1, 1) 1 True),
     (''mixed3a_3x3_pre_relu_conv'', Conv2d 96 128 (3, 3) (1, 1) 1 True),
     (''mixed3a_5x5_pre_relu_conv'', Conv2d 16 32 (5, 5) (1, 1) 1 True),
     (''mixed3b_1x1_pre_relu_conv'', Conv2d 256 128 (1, 1) (1, 1) 1 True),
     (''mixed3b_3x3_bottleneck_pre_relu_conv'', Conv2d 256 128 (1, 1) (1, 1) 1 True),
     (''mixed3b_5x5_bottleneck_pre_relu_conv'', Conv2d 256 32 (1, 1) (1, 1) 1 True),
     (''mixed3b_pool_reduce_pre_relu_conv'', Conv2d 256 64 (1, 1) (1, 1) 1 True),
     (''mixed3b_3x3_pre_relu_conv'', Conv2d 128 192 (3, 3) (1, 1) 1 True),
     (''mixed3b_5x5_pre_relu_conv'', Conv2d 32 96 (5, 5) (1, 1) 1 True),
     (''mixed4a_1x1_pre_relu_conv'', Conv2d 480 192 (1, 1) (1, 1) 1 True),
     (''mixed4a_3x3_bottleneck_pre_relu_conv'', Conv2d 480 96 (1, 1) (1, 1) 1 True),
     (''mixed4a_5x5_bottleneck_pre_relu_conv'', Conv2d 480 16 (1, 1) (1, 1) 1 True),
     (''mixed4a_pool_reduce_pre_relu_conv'', Conv2d 480 64 (1, 1) (1, 1) 1 True),
     (''mixed4a_3x3_pre_relu_conv'', Conv2d 96 204 (3, 3) (1, 1) 1 True),
     (''mixed4a_5x5_pre_relu_conv'', Conv2d 16 48 (5, 5) (1, 1) 1 True),
     (''mixed4b_1x1_pre_relu_conv'', Conv2d 508 160 (1, 1) (1, 1) 1 True),
     (''mixed4b_3x3_bottleneck_pre_relu_conv'', Conv2d 508 112 (1, 1) (1, 1) 1 True),
     (''mixed4b_5x5_bottleneck_pre_relu_conv'', Conv2d 508 24 (1, 1) (1, 1) 1 True),
     (''mixed4b_pool_reduce_pre_relu_conv'', Conv2d 508 64 (1, 1) (1, 1) 1 True),
     (''mixed4b_3x3_pre_relu_conv'', Conv2d 112 224 (3, 3) (1, 1) 1 True),
     (''mixed4b_5x5_pre_relu_conv'', Conv2d 24 64 (5, 5) (1, 1) 1 True),
     (''mixed4c_1x1_pre_relu_conv'', Conv2d 512 128 (1, 1) (1, 1) 1 True),
     (''mixed4c_3x3_bottleneck_pre_relu_conv'', Conv2d 512 128 (1, 1) (1, 1) 1 True),
     (''mixed4c_5x5_bottleneck_pre_relu_conv'', Conv2d 512 24 (1, 1) (1, 1) 1 True),
     (''mixed4c_pool_reduce_pre_relu_conv'', Conv2d 512 64 (1, 1) (1, 1) 1 True),
     (''mixed4c_3x3_pre_relu_conv'', Conv2d 128 256 (3, 3) (1, 1) 1 True),
     (''mixed4c_5x5_pre_relu_conv'', Conv2d 24 64 (5, 5) (1, 1) 1 True),
     (''mixed4d_1x1_pre_relu_conv'', Conv2d 512 112 (1, 1) (1, 1) 1 True),
     (''mixed4d_3x3_bottleneck_pre_relu_conv'', Conv2d 512 144 (1, 1) (1, 1) 1 True),
     (''mixed4d_5x5_bottleneck_pre_relu_conv'', Conv2d 512 32 (1, 1) (1, 1) 1 True),
     (''mixed4d_pool_reduce_pre_relu_conv'', Conv2d 512 64 (1, 1) (1, 1) 1 True),
     (''mixed4d_3x3_pre_relu_conv'', Conv2d 144 288 (3, 3) (1, 1) 1 True),
     (''mixed4d_5x5_pre_relu_conv'', Conv2d 32 64 (5, 5) (1, 1) 1 True),
     (''mixed4e_1x1_pre_relu_conv'', Conv2d 528 256 (1, 1) (1, 1) 1 True),
     (''mixed4e_3x3_bottleneck_pre_relu_conv'', Conv2d 528 160 (1, 1) (1, 1) 1 True),
     (''mixed4e_5x5_bottleneck_pre_relu_conv'', Conv2d 528 32 (1, 1) (1, 1) 1 True),
     (''mixed4e_pool_reduce_pre_relu_conv'', Conv2d 528 128 (1, 1) (1, 1) 1 True),
     (''mixed4e_3x3_pre_relu_conv'', Conv2d 160 320 (3, 3) (1, 1) 1 True),
     (''mixed4e_5x5_pre_relu_conv'', Conv2d 32 128 (5, 5) (1, 1) 1 True),
     (''mixed5a_1x1_pre_relu_conv'', Conv2d 832 256 (1, 1) (1, 1) 1 True),
     (''mixed5a_3x3_bottleneck_pre_relu_conv'', Conv2d 832 160 (1, 1) (1, 1) 1 True),
     (''mixed5a_5x5_bottleneck_pre_relu_conv'', Conv2d 832 48 (1, 1) (1, 1) 1 True),
     (''mixed5a_pool_reduce_pre_relu_conv'', Conv2d 832 128 (1, 1) (1, 1) 1 True),
     (''mixed5a_3x3_pre_relu_conv'', Conv2d 160 320 (3, 3) (1, 1) 1 True),
     (''mixed5a_5x5_pre_relu_conv'', Conv2d 48 128 (5, 5) (1, 1) 1 True),
     (''mixed5b_1x1_pre_relu_conv'', Conv2d 832 384 (1, 1) (1, 1) 1 True),
     (''mixed5b_3x3_bottleneck_pre_relu_conv'', Conv2d 832 192 (1, 1) (1, 1) 1 True),
     (''mixed5b_5x5_bottleneck_pre_relu_conv'', Conv2d 832 48 (1, 1) (1, 1) 1 True),
     (''mixed5b_pool_reduce_pre_relu_conv'', Conv2d 832 128 (1, 1) (1, 1) 1 True),
     (''mixed5b_3x3_pre_relu_conv'', Conv2d 192 384 (3, 3) (1, 1) 1 True),
     (''mixed5b_5x5_pre_relu_conv'', Conv2d 48 128 (5, 5) (1, 1) 1 True),
     (''softmax2_pre_activation_matmul'', Linear 1024 1008 True)]"

text \<open>
  Lines 586 to 670: \<^verbatim>\<open>add_layers\<close> picks the activation class and binds one layer
  object to each attribute.
\<close>

definition add_layers :: "bool \<Rightarrow> (string \<times> module) list" where
  "add_layers redirected_ReLU =
    (let relu = (if redirected_ReLU then RedirectedReluLayer else ReluLayer) in
     [(''conv2d0'', relu), (''maxpool0'', MaxPool2dLayer), (''conv2d1'', relu),
      (''conv2d2'', relu), (''maxpool1'', MaxPool2dLayer),
      (''mixed3a_pool'', MaxPool2dLayer), (''mixed3a_1x1'', relu),
      (''mixed3a_3x3_bottleneck'', relu), (''mixed3a_5x5_bottleneck'', relu),
      (''mixed3a_pool_reduce'', relu), (''mixed3a_3x3'', relu),
      (''mixed3a_5x5'', relu), (''mixed3a'', CatLayer),
      (''mixed3b_pool'', MaxPool2dLayer), (''mixed3b_1x1'', relu),
      (''mixed3b_3x3_bottleneck'', relu), (''mixed3b_5x5_bottleneck'', relu),
      (''mixed3b_pool_reduce'', relu), (''mixed3b_3x3'', relu),
      (''mixed3b_5x5'', relu), (''mixed3b'', CatLayer), (''maxpool4'', MaxPool2dLayer),
      (''mixed4a_pool'', MaxPool2dLayer), (''mixed4a_1x1'', relu),
      (''mixed4a_3x3_bottleneck'', relu), (''mixed4a_5x5_bottleneck'', relu),
      (''mixed4a_pool_reduce'', relu), (''mixed4a_3x3'', relu),
      (''mixed4a_5x5'', relu), (''mixed4a'', CatLayer),
      (''mixed4b_pool'', MaxPool2dLayer), (''mixed4b_1x1'', relu),
      (''mixed4b_3x3_bottleneck'', relu), (''mixed4b_5x5_bottleneck'', relu),
      (''mixed4b_pool_reduce'', relu), (''mixed4b_3x3'', relu),
      (''mixed4b_5x5'', relu), (''mixed4b'', CatLayer),
      (''mixed4c_pool'', MaxPool2dLayer), (''mixed4c_1x1'', relu),
      (''mixed4c_3x3_bottleneck'', relu), (''mixed4c_5x5_bottleneck'', relu),
      (''mixed4c_pool_reduce'', relu), (''mixed4c_3x3'', relu),
      (''mixed4c_5x5'', relu), (''mixed4c'', CatLayer),
      (''mixed4d_pool'', MaxPool2dLayer), (''mixed4d_1x1'', relu),
      (''mixed4d_3x3_bottleneck'', relu), (''mixed4d_5x5_bottleneck'', relu),
      (''mixed4d_pool_reduce'', relu), (''mixed4d_3x3'', relu),
      (''mixed4d_5x5'', relu), (''mixed4d'', CatLayer),
      (''mixed4e_pool'', MaxPool2dLayer), (''mixed4e_1x1'', relu),
      (''mixed4e_3x3_bottleneck'', relu), (''mixed4e_5x5_bottleneck'', relu),
      (''mixed4e_pool_reduce'', relu), (''mixed4e_3x3'', relu),
      (''mixed4e_5x5'', relu), (''mixed4e'', CatLayer),
      (''maxpool10'', MaxPool2dLayer), (''mixed5a_pool'', MaxPool2dLayer),
      (''mixed5a_1x1'', relu), (''mixed5a_3x3_bottleneck'', relu),
      (''mixed5a_5x5_bottleneck'', relu), (''mixed5a_pool_reduce'', relu),
      (''mixed5a_3x3'', relu), (''mixed5a_5x5'', relu), (''mixed5a'', CatLayer),
      (''mixed5b_pool'', MaxPool2dLayer), (''mixed5b_1x1'', relu),
      (''mixed5b_3x3_bottleneck'', relu), (''mixed5b_5x5_bottleneck'', relu),
      (''mixed5b_pool_reduce'', relu), (''mixed5b_3x3'', relu),
      (''mixed5b_5x5'', relu), (''mixed5b'', CatLayer), (''softmax2'', SoftMaxLayer)])"

text \<open>
  The attributes of a constructed model. A later assignment to the same attribute
  replaces an earlier one.
\<close>

definition modules :: "bool \<Rightarrow> string \<Rightarrow> module option" where
  "modules redirected_ReLU = map_of (rev (init_modules @ add_layers redirected_ReLU))"

subsection \<open>The forward pass\<close>

text \<open>Lines 673 to 694 of \<^verbatim>\<open>InceptionV1.forward\<close>.\<close>

definition forward_stem :: "stmt list" where
  "forward_stem =
    [(''conv2d0_pre_relu_conv_pad'', F_pad ''x'' [2, 3, 2, 3] Zero_default),
     (''conv2d0_pre_relu_conv'', Self_apply ''conv2d0_pre_relu_conv'' ''conv2d0_pre_relu_conv_pad''),
     (''conv2d0'', Self_apply ''conv2d0'' ''conv2d0_pre_relu_conv''),
     (''maxpool0_pad'', F_pad ''conv2d0'' [0, 1, 0, 1] Neg_inf),
     (''maxpool0'', Self_pool ''maxpool0'' ''maxpool0_pad'' (3, 3) (2, 2) 0 False),
     (''localresponsenorm0'', F_local_response_norm ''maxpool0'' 9 (999999974738 / 10000000000000000) (5 / 10) 1),
     (''conv2d1_pre_relu_conv'', Self_apply ''conv2d1_pre_relu_conv'' ''localresponsenorm0''),
     (''conv2d1'', Self_apply ''conv2d1'' ''conv2d1_pre_relu_conv''),
     (''conv2d2_pre_relu_conv_pad'', F_pad ''conv2d1'' [1, 1, 1, 1] Zero_default),
     (''conv2d2_pre_relu_conv'', Self_apply ''conv2d2_pre_relu_conv'' ''conv2d2_pre_relu_conv_pad''),
     (''conv2d2'', Self_apply ''conv2d2'' ''conv2d2_pre_relu_conv''),
     (''localresponsenorm1'', F_local_response_norm ''conv2d2'' 9 (999999974738 / 10000000000000000) (5 / 10) 1),
     (''maxpool1_pad'', F_pad ''localresponsenorm1'' [0, 1, 0, 1] Neg_inf),
     (''maxpool1'', Self_pool ''maxpool1'' ''maxpool1_pad'' (3, 3) (2, 2) 0 False)]"

text \<open>Lines 695 to 735 of \<^verbatim>\<open>InceptionV1.forward\<close>.\<close>

definition forward_mixed3a :: "stmt list" where
  "forward_mixed3a =
    [(''mixed3a_1x1_pre_relu_conv'', Self_apply ''mixed3a_1x1_pre_relu_conv'' ''maxpool1''),
     (''mixed3a_3x3_bottleneck_pre_relu_conv'', Self_apply ''mixed3a_3x3_bottleneck_pre_relu_conv'' ''maxpool1''),
     (''mixed3a_5x5_bottleneck_pre_relu_conv'', Self_apply ''mixed3a_5x5_bottleneck_pre_relu_conv'' ''maxpool1''),
     (''mixed3a_pool_pad'', F_pad ''maxpool1'' [1, 1, 1, 1] Neg_inf),
     (''mixed3a_pool'', Self_pool ''mixed3a_pool'' ''mixed3a_pool_pad'' (3, 3) (1, 1) 0 False),
     (''mixed3a_1x1'', Self_apply ''mixed3a_1x1'' ''mixed3a_1x1_pre_relu_conv''),
     (''mixed3a_3x3_bottleneck'', Self_apply ''mixed3a_3x3_bottleneck'' ''mixed3a_3x3_bottleneck_pre_relu_conv''),
     (''mixed3a_5x5_bottleneck'', Self_apply ''mixed3a_5x5_bottleneck'' ''mixed3a_5x5_bottleneck_pre_relu_conv''),
     (''mixed3a_pool_reduce_pre_relu_conv'', Self_apply ''mixed3a_pool_reduce_pre_relu_conv'' ''mixed3a_pool''),
     (''mixed3a_3x3_pre_relu_conv_pad'', F_pad ''mixed3a_3x3_bottleneck'' [1, 1, 1, 1] Zero_default),
     (''mixed3a_3x3_pre_relu_conv'', Self_apply ''mixed3a_3x3_pre_relu_conv'' ''mixed3a_3x3_pre_relu_conv_pad''),
     (''mixed3a_5x5_pre_relu_conv_pad'', F_pad ''mixed3a_5x5_bottleneck'' [2, 2, 2, 2] Zero_default),
     (''mixed3a_5x5_pre_relu_conv'', Self_apply ''mixed3a_5x5_pre_relu_conv'' ''mixed3a_5x5_pre_relu_conv_pad''),
     (''mixed3a_pool_reduce'', Self_apply ''mixed3a_pool_reduce'' ''mixed3a_pool_reduce_pre_relu_conv''),
     (''mixed3a_3x3'', Self_apply ''mixed3a_3x3'' ''mixed3a_3x3_pre_relu_conv''),
     (''mixed3a_5x5'', Self_apply ''mixed3a_5x5'' ''mixed3a_5x5_pre_relu_conv''),
     (''mixed3a'', Self_cat ''mixed3a'' [''mixed3a_1x1'', ''mixed3a_3x3'', ''mixed3a_5x5'', ''mixed3a_pool_reduce''] 1)]"

text \<open>Lines 736 to 776 of \<^verbatim>\<open>InceptionV1.forward\<close>.\<close>

definition forward_mixed3b :: "stmt list" where
  "forward_mixed3b =
    [(''mixed3b_1x1_pre_relu_conv'', Self_apply ''mixed3b_1x1_pre_relu_conv'' ''mixed3a''),
     (''mixed3b_3x3_bottleneck_pre_relu_conv'', Self_apply ''mixed3b_3x3_bottleneck_pre_relu_conv'' ''mixed3a''),
     (''mixed3b_5x5_bottleneck_pre_relu_conv'', Self_apply ''mixed3b_5x5_bottleneck_pre_relu_conv'' ''mixed3a''),
     (''mixed3b_pool_pad'', F_pad ''mixed3a'' [1, 1, 1, 1] Neg_inf),
     (''mixed3b_pool'', Self_pool ''mixed3b_pool'' ''mixed3b_pool_pad'' (3, 3) (1, 1) 0 False),
     (''mixed3b_1x1'', Self_apply ''mixed3b_1x1'' ''mixed3b_1x1_pre_relu_conv''),
     (''mixed3b_3x3_bottleneck'', Self_apply ''mixed3b_3x3_bottleneck'' ''mixed3b_3x3_bottleneck_pre_relu_conv''),
     (''mixed3b_5x5_bottleneck'', Self_apply ''mixed3b_5x5_bottleneck'' ''mixed3b_5x5_bottleneck_pre_relu_conv''),
     (''mixed3b_pool_reduce_pre_relu_conv'', Self_apply ''mixed3b_pool_reduce_pre_relu_conv'' ''mixed3b_pool''),
     (''mixed3b_3x3_pre_relu_conv_pad'', F_pad ''mixed3b_3x3_bottleneck'' [1, 1, 1, 1] Zero_default),
     (''mixed3b_3x3_pre_relu_conv'', Self_apply ''mixed3b_3x3_pre_relu_conv'' ''mixed3b_3x3_pre_relu_conv_pad''),
     (''mixed3b_5x5_pre_relu_conv_pad'', F_pad ''mixed3b_5x5_bottleneck'' [2, 2, 2, 2] Zero_default),
     (''mixed3b_5x5_pre_relu_conv'', Self_apply ''mixed3b_5x5_pre_relu_conv'' ''mixed3b_5x5_pre_relu_conv_pad''),
     (''mixed3b_pool_reduce'', Self_apply ''mixed3b_pool_reduce'' ''mixed3b_pool_reduce_pre_relu_conv''),
     (''mixed3b_3x3'', Self_apply ''mixed3b_3x3'' ''mixed3b_3x3_pre_relu_conv''),
     (''mixed3b_5x5'', Self_apply ''mixed3b_5x5'' ''mixed3b_5x5_pre_relu_conv''),
     (''mixed3b'', Self_cat ''mixed3b'' [''mixed3b_1x1'', ''mixed3b_3x3'', ''mixed3b_5x5'', ''mixed3b_pool_reduce''] 1)]"

text \<open>Lines 777 to 780 of \<^verbatim>\<open>InceptionV1.forward\<close>.\<close>

definition forward_maxpool4 :: "stmt list" where
  "forward_maxpool4 =
    [(''maxpool4_pad'', F_pad ''mixed3b'' [0, 1, 0, 1] Neg_inf),
     (''maxpool4'', Self_pool ''maxpool4'' ''maxpool4_pad'' (3, 3) (2, 2) 0 False)]"

text \<open>Lines 781 to 821 of \<^verbatim>\<open>InceptionV1.forward\<close>.\<close>

definition forward_mixed4a :: "stmt list" where
  "forward_mixed4a =
    [(''mixed4a_1x1_pre_relu_conv'', Self_apply ''mixed4a_1x1_pre_relu_conv'' ''maxpool4''),
     (''mixed4a_3x3_bottleneck_pre_relu_conv'', Self_apply ''mixed4a_3x3_bottleneck_pre_relu_conv'' ''maxpool4''),
     (''mixed4a_5x5_bottleneck_pre_relu_conv'', Self_apply ''mixed4a_5x5_bottleneck_pre_relu_conv'' ''maxpool4''),
     (''mixed4a_pool_pad'', F_pad ''maxpool4'' [1, 1, 1, 1] Neg_inf),
     (''mixed4a_pool'', Self_pool ''mixed4a_pool'' ''mixed4a_pool_pad'' (3, 3) (1, 1) 0 False),
     (''mixed4a_1x1'', Self_apply ''mixed4a_1x1'' ''mixed4a_1x1_pre_relu_conv''),
     (''mixed4a_3x3_bottleneck'', Self_apply ''mixed4a_3x3_bottleneck'' ''mixed4a_3x3_bottleneck_pre_relu_conv''),
     (''mixed4a_5x5_bottleneck'', Self_apply ''mixed4a_5x5_bottleneck'' ''mixed4a_5x5_bottleneck_pre_relu_conv''),
     (''mixed4a_pool_reduce_pre_relu_conv'', Self_apply ''mixed4a_pool_reduce_pre_relu_conv'' ''mixed4a_pool''),
     (''mixed4a_3x3_pre_relu_conv_pad'', F_pad ''mixed4a_3x3_bottleneck'' [1, 1, 1, 1] Zero_default),
     (''mixed4a_3x3_pre_relu_conv'', Self_apply ''mixed4a_3x3_pre_relu_conv'' ''mixed4a_3x3_pre_relu_conv_pad''),
     (''mixed4a_5x5_pre_relu_conv_pad'', F_pad ''mixed4a_5x5_bottleneck'' [2, 2, 2, 2] Zero_default),
     (''mixed4a_5x5_pre_relu_conv'', Self_apply ''mixed4a_5x5_pre_relu_conv'' ''mixed4a_5x5_pre_relu_conv_pad''),
     (''mixed4a_pool_reduce'', Self_apply ''mixed4a_pool_reduce'' ''mixed4a_pool_reduce_pre_relu_conv''),
     (''mixed4a_3x3'', Self_apply ''mixed4a_3x3'' ''mixed4a_3x3_pre_relu_conv''),
     (''mixed4a_5x5'', Self_apply ''mixed4a_5x5'' ''mixed4a_5x5_pre_relu_conv''),
     (''mixed4a'', Self_cat ''mixed4a'' [''mixed4a_1x1'', ''mixed4a_3x3'', ''mixed4a_5x5'', ''mixed4a_pool_reduce''] 1)]"

text \<open>Lines 822 to 862 of \<^verbatim>\<open>InceptionV1.forward\<close>.\<close>

definition forward_mixed4b :: "stmt list" where
  "forward_mixed4b =
    [(''mixed4b_1x1_pre_relu_conv'', Self_apply ''mixed4b_1x1_pre_relu_conv'' ''mixed4a''),
     (''mixed4b_3x3_bottleneck_pre_relu_conv'', Self_apply ''mixed4b_3x3_bottleneck_pre_relu_conv'' ''mixed4a''),
     (''mixed4b_5x5_bottleneck_pre_relu_conv'', Self_apply ''mixed4b_5x5_bottleneck_pre_relu_conv'' ''mixed4a''),
     (''mixed4b_pool_pad'', F_pad ''mixed4a'' [1, 1, 1, 1] Neg_inf),
     (''mixed4b_pool'', Self_pool ''mixed4b_pool'' ''mixed4b_pool_pad'' (3, 3) (1, 1) 0 False),
     (''mixed4b_1x1'', Self_apply ''mixed4b_1x1'' ''mixed4b_1x1_pre_relu_conv''),
     (''mixed4b_3x3_bottleneck'', Self_apply ''mixed4b_3x3_bottleneck'' ''mixed4b_3x3_bottleneck_pre_relu_conv''),
     (''mixed4b_5x5_bottleneck'', Self_apply ''mixed4b_5x5_bottleneck'' ''mixed4b_5x5_bottleneck_pre_relu_conv''),
     (''mixed4b_pool_reduce_pre_relu_conv'', Self_apply ''mixed4b_pool_reduce_pre_relu_conv'' ''mixed4b_pool''),
     (''mixed4b_3x3_pre_relu_conv_pad'', F_pad ''mixed4b_3x3_bottleneck'' [1, 1, 1, 1] Zero_default),
     (''mixed4b_3x3_pre_relu_conv'', Self_apply ''mixed4b_3x3_pre_relu_conv'' ''mixed4b_3x3_pre_relu_conv_pad''),
     (''mixed4b_5x5_pre_relu_conv_pad'', F_pad ''mixed4b_5x5_bottleneck'' [2, 2, 2, 2] Zero_default),
     (''mixed4b_5x5_pre_relu_conv'', Self_apply ''mixed4b_5x5_pre_relu_conv'' ''mixed4b_5x5_pre_relu_conv_pad''),
     (''mixed4b_pool_reduce'', Self_apply ''mixed4b_pool_reduce'' ''mixed4b_pool_reduce_pre_relu_conv''),
     (''mixed4b_3x3'', Self_apply ''mixed4b_3x3'' ''mixed4b_3x3_pre_relu_conv''),
     (''mixed4b_5x5'', Self_apply ''mixed4b_5x5'' ''mixed4b_5x5_pre_relu_conv''),
     (''mixed4b'', Self_cat ''mixed4b'' [''mixed4b_1x1'', ''mixed4b_3x3'', ''mixed4b_5x5'', ''mixed4b_pool_reduce''] 1)]"

text \<open>Lines 863 to 903 of \<^verbatim>\<open>InceptionV1.forward\<close>.\<close>

definition forward_mixed4c :: "stmt list" where
  "forward_mixed4c =
    [(''mixed4c_1x1_pre_relu_conv'', Self_apply ''mixed4c_1x1_pre_relu_conv'' ''mixed4b''),
     (''mixed4c_3x3_bottleneck_pre_relu_conv'', Self_apply ''mixed4c_3x3_bottleneck_pre_relu_conv'' ''mixed4b''),
     (''mixed4c_5x5_bottleneck_pre_relu_conv'', Self_apply ''mixed4c_5x5_bottleneck_pre_relu_conv'' ''mixed4b''),
     (''mixed4c_pool_pad'', F_pad ''mixed4b'' [1, 1, 1, 1] Neg_inf),
     (''mixed4c_pool'', Self_pool ''mixed4c_pool'' ''mixed4c_pool_pad'' (3, 3) (1, 1) 0 False),
     (''mixed4c_1x1'', Self_apply ''mixed4c_1x1'' ''mixed4c_1x1_pre_relu_conv''),
     (''mixed4c_3x3_bottleneck'', Self_apply ''mixed4c_3x3_bottleneck'' ''mixed4c_3x3_bottleneck_pre_relu_conv''),
     (''mixed4c_5x5_bottleneck'', Self_apply ''mixed4c_5x5_bottleneck'' ''mixed4c_5x5_bottleneck_pre_relu_conv''),
     (''mixed4c_pool_reduce_pre_relu_conv'', Self_apply ''mixed4c_pool_reduce_pre_relu_conv'' ''mixed4c_pool''),
     (''mixed4c_3x3_pre_relu_conv_pad'', F_pad ''mixed4c_3x3_bottleneck'' [1, 1, 1, 1] Zero_default),
     (''mixed4c_3x3_pre_relu_conv'', Self_apply ''mixed4c_3x3_pre_relu_conv'' ''mixed4c_3x3_pre_relu_conv_pad''),
     (''mixed4c_5x5_pre_relu_conv_pad'', F_pad ''mixed4c_5x5_bottleneck'' [2, 2, 2, 2] Zero_default),
     (''mixed4c_5x5_pre_relu_conv'', Self_apply ''mixed4c_5x5_pre_relu_conv'' ''mixed4c_5x5_pre_relu_conv_pad''),
     (''mixed4c_pool_reduce'', Self_apply ''mixed4c_pool_reduce'' ''mixed4c_pool_reduce_pre_relu_conv''),
     (''mixed4c_3x3'', Self_apply ''mixed4c_3x3'' ''mixed4c_3x3_pre_relu_conv''),
     (''mixed4c_5x5'', Self_apply ''mixed4c_5x5'' ''mixed4c_5x5_pre_relu_conv''),
     (''mixed4c'', Self_cat ''mixed4c'' [''mixed4c_1x1'', ''mixed4c_3x3'', ''mixed4c_5x5'', ''mixed4c_pool_reduce''] 1)]"

text \<open>Lines 904 to 944 of \<^verbatim>\<open>InceptionV1.forward\<close>.\<close>

definition forward_mixed4d :: "stmt list" where
  "forward_mixed4d =
    [(''mixed4d_1x1_pre_relu_conv'', Self_apply ''mixed4d_1x1_pre_relu_conv'' ''mixed4c''),
     (''mixed4d_3x3_bottleneck_pre_relu_conv'', Self_apply ''mixed4d_3x3_bottleneck_pre_relu_conv'' ''mixed4c''),
     (''mixed4d_5x5_bottleneck_pre_relu_conv'', Self_apply ''mixed4d_5x5_bottleneck_pre_relu_conv'' ''mixed4c''),
     (''mixed4d_pool_pad'', F_pad ''mixed4c'' [1, 1, 1, 1] Neg_inf),
     (''mixed4d_pool'', Self_pool ''mixed4d_pool'' ''mixed4d_pool_pad'' (3, 3) (1, 1) 0 False),
     (''mixed4d_1x1'', Self_apply ''mixed4d_1x1'' ''mixed4d_1x1_pre_relu_conv''),
     (''mixed4d_3x3_bottleneck'', Self_apply ''mixed4d_3x3_bottleneck'' ''mixed4d_3x3_bottleneck_pre_relu_conv''),
     (''mixed4d_5x5_bottleneck'', Self_apply ''mixed4d_5x5_bottleneck'' ''mixed4d_5x5_bottleneck_pre_relu_conv''),
     (''mixed4d_pool_reduce_pre_relu_conv'', Self_apply ''mixed4d_pool_reduce_pre_relu_conv'' ''mixed4d_pool''),
     (''mixed4d_3x3_pre_relu_conv_pad'', F_pad ''mixed4d_3x3_bottleneck'' [1, 1, 1, 1] Zero_default),
     (''mixed4d_3x3_pre_relu_conv'', Self_apply ''mixed4d_3x3_pre_relu_conv'' ''mixed4d_3x3_pre_relu_conv_pad''),
     (''mixed4d_5x5_pre_relu_conv_pad'', F_pad ''mixed4d_5x5_bottleneck'' [2, 2, 2, 2] Zero_default),
     (''mixed4d_5x5_pre_relu_conv'', Self_apply ''mixed4d_5x5_pre_relu_conv'' ''mixed4d_5x5_pre_relu_conv_pad''),
     (''mixed4d_pool_reduce'', Self_apply ''mixed4d_pool_reduce'' ''mixed4d_pool_reduce_pre_relu_conv''),
     (''mixed4d_3x3'', Self_apply ''mixed4d_3x3'' ''mixed4d_3x3_pre_relu_conv''),
     (''mixed4d_5x5'', Self_apply ''mixed4d_5x5'' ''mixed4d_5x5_pre_relu_conv''),
     (''mixed4d'', Self_cat ''mixed4d'' [''mixed4d_1x1'', ''mixed4d_3x3'', ''mixed4d_5x5'', ''mixed4d_pool_reduce''] 1)]"

text \<open>Lines 945 to 985 of \<^verbatim>\<open>InceptionV1.forward\<close>.\<close>

definition forward_mixed4e :: "stmt list" where
  "forward_mixed4e =
    [(''mixed4e_1x1_pre_relu_conv'', Self_apply ''mixed4e_1x1_pre_relu_conv'' ''mixed4d''),
     (''mixed4e_3x3_bottleneck_pre_relu_conv'', Self_apply ''mixed4e_3x3_bottleneck_pre_relu_conv'' ''mixed4d''),
     (''mixed4e_5x5_bottleneck_pre_relu_conv'', Self_apply ''mixed4e_5x5_bottleneck_pre_relu_conv'' ''mixed4d''),
     (''mixed4e_pool_pad'', F_pad ''mixed4d'' [1, 1, 1, 1] Neg_inf),
     (''mixed4e_pool'', Self_pool ''mixed4e_pool'' ''mixed4e_pool_pad'' (3, 3) (1, 1) 0 False),
     (''mixed4e_1x1'', Self_apply ''mixed4e_1x1'' ''mixed4e_1x1_pre_relu_conv''),
     (''mixed4e_3x3_bottleneck'', Self_apply ''mixed4e_3x3_bottleneck'' ''mixed4e_3x3_bottleneck_pre_relu_conv''),
     (''mixed4e_5x5_bottleneck'', Self_apply ''mixed4e_5x5_bottleneck'' ''mixed4e_5x5_bottleneck_pre_relu_conv''),
     (''mixed4e_pool_reduce_pre_relu_conv'', Self_apply ''mixed4e_pool_reduce_pre_relu_conv'' ''mixed4e_pool''),
     (''mixed4e_3x3_pre_relu_conv_pad'', F_pad ''mixed4e_3x3_bottleneck'' [1, 1, 1, 1] Zero_default),
     (''mixed4e_3x3_pre_relu_conv'', Self_apply ''mixed4e_3x3_pre_relu_conv'' ''mixed4e_3x3_pre_relu_conv_pad''),
     (''mixed4e_5x5_pre_relu_conv_pad'', F_pad ''mixed4e_5x5_bottleneck'' [2, 2, 2, 2] Zero_default),
     (''mixed4e_5x5_pre_relu_conv'', Self_apply ''mixed4e_5x5_pre_relu_conv'' ''mixed4e_5x5_pre_relu_conv_pad''),
     (''mixed4e_pool_reduce'', Self_apply ''mixed4e_pool_reduce'' ''mixed4e_pool_reduce_pre_relu_conv''),
     (''mixed4e_3x3'', Self_apply ''mixed4e_3x3'' ''mixed4e_3x3_pre_relu_conv''),
     (''mixed4e_5x5'', Self_apply ''mixed4e_5x5'' ''mixed4e_5x5_pre_relu_conv''),
     (''mixed4e'', Self_cat ''mixed4e'' [''mixed4e_1x1'', ''mixed4e_3x3'', ''mixed4e_5x5'', ''mixed4e_pool_reduce''] 1)]"

text \<open>Lines 986 to 989 of \<^verbatim>\<open>InceptionV1.forward\<close>.\<close>

definition forward_maxpool10 :: "stmt list" where
  "forward_maxpool10 =
    [(''maxpool10_pad'', F_pad ''mixed4e'' [0, 1, 0, 1] Neg_inf),
     (''maxpool10'', Self_pool ''maxpool10'' ''maxpool10_pad'' (3, 3) (2, 2) 0 False)]"

text \<open>Lines 990 to 1030 of \<^verbatim>\<open>InceptionV1.forward\<close>.\<close>

definition forward_mixed5a :: "stmt list" where
  "forward_mixed5a =
    [(''mixed5a_1x1_pre_relu_conv'', Self_apply ''mixed5a_1x1_pre_relu_conv'' ''maxpool10''),
     (''mixed5a_3x3_bottleneck_pre_relu_conv'', Self_apply ''mixed5a_3x3_bottleneck_pre_relu_conv'' ''maxpool10''),
     (''mixed5a_5x5_bottleneck_pre_relu_conv'', Self_apply ''mixed5a_5x5_bottleneck_pre_relu_conv'' ''maxpool10''),
     (''mixed5a_pool_pad'', F_pad ''maxpool10'' [1, 1, 1, 1] Neg_inf),
     (''mixed5a_pool'', Self_pool ''mixed5a_pool'' ''mixed5a_pool_pad'' (3, 3) (1, 1) 0 False),
     (''mixed5a_1x1'', Self_apply ''mixed5a_1x1'' ''mixed5a_1x1_pre_relu_conv''),
     (''mixed5a_3x3_bottleneck'', Self_apply ''mixed5a_3x3_bottleneck'' ''mixed5a_3x3_bottleneck_pre_relu_conv''),
     (''mixed5a_5x5_bottleneck'', Self_apply ''mixed5a_5x5_bottleneck'' ''mixed5a_5x5_bottleneck_pre_relu_conv''),
     (''mixed5a_pool_reduce_pre_relu_conv'', Self_apply ''mixed5a_pool_reduce_pre_relu_conv'' ''mixed5a_pool''),
     (''mixed5a_3x3_pre_relu_conv_pad'', F_pad ''mixed5a_3x3_bottleneck'' [1, 1, 1, 1] Zero_default),
     (''mixed5a_3x3_pre_relu_conv'', Self_apply ''mixed5a_3x3_pre_relu_conv'' ''mixed5a_3x3_pre_relu_conv_pad''),
     (''mixed5a_5x5_pre_relu_conv_pad'', F_pad ''mixed5a_5x5_bottleneck'' [2, 2, 2, 2] Zero_default),
     (''mixed5a_5x5_pre_relu_conv'', Self_apply ''mixed5a_5x5_pre_relu_conv'' ''mixed5a_5x5_pre_relu_conv_pad''),
     (''mixed5a_pool_reduce'', Self_apply ''mixed5a_pool_reduce'' ''mixed5a_pool_reduce_pre_relu_conv''),
     (''mixed5a_3x3'', Self_apply ''mixed5a_3x3'' ''mixed5a_3x3_pre_relu_conv''),
     (''mixed5a_5x5'', Self_apply ''mixed5a_5x5'' ''mixed5a_5x5_pre_relu_conv''),
     (''mixed5a'', Self_cat ''mixed5a'' [''mixed5a_1x1'', ''mixed5a_3x3'', ''mixed5a_5x5'', ''mixed5a_pool_reduce''] 1)]"

text \<open>Lines 1031 to 1071 of \<^verbatim>\<open>InceptionV1.forward\<close>.\<close>

definition forward_mixed5b :: "stmt list" where
  "forward_mixed5b =
    [(''mixed5b_1x1_pre_relu_conv'', Self_apply ''mixed5b_1x1_pre_relu_conv'' ''mixed5a''),
     (''mixed5b_3x3_bottleneck_pre_relu_conv'', Self_apply ''mixed5b_3x3_bottleneck_pre_relu_conv'' ''mixed5a''),
     (''mixed5b_5x5_bottleneck_pre_relu_conv'', Self_apply ''mixed5b_5x5_bottleneck_pre_relu_conv'' ''mixed5a''),
     (''mixed5b_pool_pad'', F_pad ''mixed5a'' [1, 1, 1, 1] Neg_inf),
     (''mixed5b_pool'', Self_pool ''mixed5b_pool'' ''mixed5b_pool_pad'' (3, 3) (1, 1) 0 False),
     (''mixed5b_1x1'', Self_apply ''mixed5b_1x1'' ''mixed5b_1x1_pre_relu_conv''),
     (''mixed5b_3x3_bottleneck'', Self_apply ''mixed5b_3x3_bottleneck'' ''mixed5b_3x3_bottleneck_pre_relu_conv''),
     (''mixed5b_5x5_bottleneck'', Self_apply ''mixed5b_5x5_bottleneck'' ''mixed5b_5x5_bottleneck_pre_relu_conv''),
     (''mixed5b_pool_reduce_pre_relu_conv'', Self_apply ''mixed5b_pool_reduce_pre_relu_conv'' ''mixed5b_pool''),
     (''mixed5b_3x3_pre_relu_conv_pad'', F_pad ''mixed5b_3x3_bottleneck'' [1, 1, 1, 1] Zero_default),
     (''mixed5b_3x3_pre_relu_conv'', Self_apply ''mixed5b_3x3_pre_relu_conv'' ''mixed5b_3x3_pre_relu_conv_pad''),
     (''mixed5b_5x5_pre_relu_conv_pad'', F_pad ''mixed5b_5x5_bottleneck'' [2, 2, 2, 2] Zero_default),
     (''mixed5b_5x5_pre_relu_conv'', Self_apply ''mixed5b_5x5_pre_relu_conv'' ''mixed5b_5x5_pre_relu_conv_pad''),
     (''mixed5b_pool_reduce'', Self_apply ''mixed5b_pool_reduce'' ''mixed5b_pool_reduce_pre_relu_conv''),
     (''mixed5b_3x3'', Self_apply ''mixed5b_3x3'' ''mixed5b_3x3_pre_relu_conv''),
     (''mixed5b_5x5'', Self_apply ''mixed5b_5x5'' ''mixed5b_5x5_pre_relu_conv''),
     (''mixed5b'', Self_cat ''mixed5b'' [''mixed5b_1x1'', ''mixed5b_3x3'', ''mixed5b_5x5'', ''mixed5b_pool_reduce''] 1)]"

text \<open>Lines 1072 to 1084 of \<^verbatim>\<open>InceptionV1.forward\<close>.\<close>

definition forward_head :: "stmt list" where
  "forward_head =
    [(''avgpool0'', F_avg_pool2d ''mixed5b'' (7, 7) (1, 1) [0] False False),
     (''avgpool0_reshape'', torch_reshape ''avgpool0'' [-1, 1024]),
     (''softmax2_pre_activation_matmul'', Self_apply ''softmax2_pre_activation_matmul'' ''avgpool0_reshape''),
     (''softmax2'', Self_apply ''softmax2'' ''softmax2_pre_activation_matmul'')]"

definition forward_body :: "stmt list" where
  "forward_body =
     forward_stem @ forward_mixed3a @ forward_mixed3b @ forward_maxpool4 @ forward_mixed4a @ forward_mixed4b @ forward_mixed4c @ forward_mixed4d @ forward_mixed4e @ forward_maxpool10 @ forward_mixed5a @ forward_mixed5b @ forward_head"

definition forward_return :: string where
  "forward_return = ''softmax2''"

subsection \<open>Running the forward pass\<close>

text \<open>
  The arguments a module is called with in the forward pass: one tensor, one tensor with
  the pooling keywords, or a tuple of tensors with a dimension.
\<close>

datatype 'v args =
    Arg1 'v
  | ArgPool 'v "nat \<times> nat" "nat \<times> nat" nat bool
  | ArgCat "'v list" nat

text \<open>
  The operations of the framework that the forward pass calls, over any type of values:
  tensors for the real computation, channel counts or symbolic expressions for an
  analysis of the graph. Each may fail, as the framework raises on operands that do not
  fit.
\<close>

record 'v ops =
  op_pad :: "'v \<Rightarrow> nat list \<Rightarrow> pad_value \<Rightarrow> error + 'v"
  op_local_response_norm :: "'v \<Rightarrow> nat \<Rightarrow> rat \<Rightarrow> rat \<Rightarrow> rat \<Rightarrow> error + 'v"
  op_avg_pool2d :: "'v \<Rightarrow> nat \<times> nat \<Rightarrow> nat \<times> nat \<Rightarrow> nat list \<Rightarrow> bool \<Rightarrow> bool \<Rightarrow> error + 'v"
  op_reshape :: "'v \<Rightarrow> int list \<Rightarrow> error + 'v"
  op_module :: "string \<Rightarrow> module \<Rightarrow> 'v args \<Rightarrow> error + 'v"

definition lookup_var :: "(string \<Rightarrow> 'v option) \<Rightarrow> string \<Rightarrow> error + 'v" where
  "lookup_var env v = (case env v of None \<Rightarrow> Inl (NameError v) | Some t \<Rightarrow> Inr t)"

fun lookup_vars :: "(string \<Rightarrow> 'v option) \<Rightarrow> string list \<Rightarrow> error + 'v list" where
  "lookup_vars env [] = Inr []"
| "lookup_vars env (v # vs) =
     (case lookup_var env v of
        Inl e \<Rightarrow> Inl e
      | Inr t \<Rightarrow> (case lookup_vars env vs of Inl e \<Rightarrow> Inl e | Inr ts \<Rightarrow> Inr (t # ts)))"

text \<open>
  One right-hand side. Python evaluates the callee first (a missing attribute is an
  AttributeError), then the arguments from left to right (an unbound variable is a
  NameError), then makes the call.
\<close>

fun eval_call ::
  "'v ops \<Rightarrow> (string \<Rightarrow> module option) \<Rightarrow> (string \<Rightarrow> 'v option) \<Rightarrow> call \<Rightarrow> error + 'v" where
  "eval_call f mods env (F_pad v pads val) =
     (case lookup_var env v of Inl e \<Rightarrow> Inl e | Inr t \<Rightarrow> op_pad f t pads val)"
| "eval_call f mods env (F_local_response_norm v sz alpha beta k) =
     (case lookup_var env v of
        Inl e \<Rightarrow> Inl e
      | Inr t \<Rightarrow> op_local_response_norm f t sz alpha beta k)"
| "eval_call f mods env (F_avg_pool2d v ks st pd cm cip) =
     (case lookup_var env v of Inl e \<Rightarrow> Inl e | Inr t \<Rightarrow> op_avg_pool2d f t ks st pd cm cip)"
| "eval_call f mods env (torch_reshape v shp) =
     (case lookup_var env v of Inl e \<Rightarrow> Inl e | Inr t \<Rightarrow> op_reshape f t shp)"
| "eval_call f mods env (Self_apply m v) =
     (case mods m of
        None \<Rightarrow> Inl (AttributeError m)
      | Some md \<Rightarrow>
          (case lookup_var env v of Inl e \<Rightarrow> Inl e | Inr t \<Rightarrow> op_module f m md (Arg1 t)))"
| "eval_call f mods env (Self_pool m v ks st pd cm) =
     (case mods m of
        None \<Rightarrow> Inl (AttributeError m)
      | Some md \<Rightarrow>
          (case lookup_var env v of
             Inl e \<Rightarrow> Inl e
           | Inr t \<Rightarrow> op_module f m md (ArgPool t ks st pd cm)))"
| "eval_call f mods env (Self_cat m vs d) =
     (case mods m of
        None \<Rightarrow> Inl (AttributeError m)
      | Some md \<Rightarrow>
          (case lookup_vars env vs of Inl e \<Rightarrow> Inl e | Inr ts \<Rightarrow> op_module f m md (ArgCat ts d)))"

text \<open>The statements in order; each assignment binds its target in the environment.\<close>

fun exec ::
  "'v ops \<Rightarrow> (string \<Rightarrow> module option) \<Rightarrow> stmt list \<Rightarrow> (string \<Rightarrow> 'v option)
    \<Rightarrow> error + (string \<Rightarrow> 'v option)" where
  "exec f mods [] env = Inr env"
| "exec f mods ((target, c) # ss) env =
     (case eval_call f mods env c of
        Inl e \<Rightarrow> Inl e
      | Inr t \<Rightarrow> exec f mods ss (env(target \<mapsto> t)))"

definition run_forward ::
  "'v ops \<Rightarrow> (string \<Rightarrow> module option) \<Rightarrow> 'v \<Rightarrow> error + 'v" where
  "run_forward f mods x =
     (case exec f mods forward_body (Map.empty(''x'' \<mapsto> x)) of
        Inl e \<Rightarrow> Inl e
      | Inr env \<Rightarrow> lookup_var env forward_return)"

subsection \<open>The forward pass on tensors\<close>

text \<open>
  The framework's kernels are parameters: convolution, linear map, pooling,
  concatenation, softmax, padding, normalization and reshape are the framework's and are
  not reimplemented. A convolution or linear layer reads its weight and bias from the
  state dictionary under its attribute name.
\<close>

record 'a torch =
  nn_conv2d :: "module \<Rightarrow> 'a tensor option \<Rightarrow> 'a tensor option \<Rightarrow> 'a tensor \<Rightarrow> error + 'a tensor"
  nn_linear :: "module \<Rightarrow> 'a tensor option \<Rightarrow> 'a tensor option \<Rightarrow> 'a tensor \<Rightarrow> error + 'a tensor"
  max_pool2d :: "'a tensor \<Rightarrow> nat \<times> nat \<Rightarrow> nat \<times> nat \<Rightarrow> nat \<Rightarrow> bool \<Rightarrow> error + 'a tensor"
  cat :: "'a tensor list \<Rightarrow> nat \<Rightarrow> error + 'a tensor"
  softmax :: "'a tensor \<Rightarrow> nat \<Rightarrow> error + 'a tensor"
  local_response_norm :: "'a tensor \<Rightarrow> nat \<Rightarrow> rat \<Rightarrow> rat \<Rightarrow> rat \<Rightarrow> error + 'a tensor"
  pad :: "'a tensor \<Rightarrow> nat list \<Rightarrow> pad_value \<Rightarrow> error + 'a tensor"
  avg_pool2d :: "'a tensor \<Rightarrow> nat \<times> nat \<Rightarrow> nat \<times> nat \<Rightarrow> nat list \<Rightarrow> bool \<Rightarrow> bool \<Rightarrow> error + 'a tensor"
  reshape :: "'a tensor \<Rightarrow> int list \<Rightarrow> error + 'a tensor"

text \<open>
  The \<^verbatim>\<open>forward\<close> method of each module class, by the form of the call. A call the
  method's signature does not accept raises TypeError. \<^verbatim>\<open>MaxPool2dLayer\<close>,
  \<^verbatim>\<open>SoftMaxLayer\<close> and \<^verbatim>\<open>LocalResponseNormLayer\<close> fill in their default keywords.
\<close>

fun module_forward ::
  "('a::linordered_field) torch \<Rightarrow> (string \<Rightarrow> 'a tensor option) \<Rightarrow> string \<Rightarrow> module
    \<Rightarrow> 'a tensor args \<Rightarrow> error + 'a tensor" where
  "module_forward T sd name (Conv2d i oc ks st g b) (Arg1 t) =
     nn_conv2d T (Conv2d i oc ks st g b) (sd (name @ ''.weight'')) (sd (name @ ''.bias'')) t"
| "module_forward T sd name (Linear i oc b) (Arg1 t) =
     nn_linear T (Linear i oc b) (sd (name @ ''.weight'')) (sd (name @ ''.bias'')) t"
| "module_forward T sd name ReluLayer (Arg1 t) = Inr (ReluLayer_forward t)"
| "module_forward T sd name RedirectedReluLayer (Arg1 t) = Inr (RedirectedReluLayer_forward t)"
| "module_forward T sd name MaxPool2dLayer (Arg1 t) = max_pool2d T t (3, 3) (1, 1) 0 False"
| "module_forward T sd name MaxPool2dLayer (ArgPool t ks st pd cm) = max_pool2d T t ks st pd cm"
| "module_forward T sd name CatLayer (ArgCat ts d) = cat T ts d"
| "module_forward T sd name SoftMaxLayer (Arg1 t) = softmax T t 1"
| "module_forward T sd name LocalResponseNormLayer (Arg1 t) =
     local_response_norm T t 5 (9999999747378752 / 100000000000000000000) (75 / 100) 1"
| "module_forward T sd name md a = Inl TypeError"

definition tensor_ops ::
  "('a::linordered_field) torch \<Rightarrow> (string \<Rightarrow> 'a tensor option) \<Rightarrow> 'a tensor ops" where
  "tensor_ops T sd =
     \<lparr>op_pad = pad T,
      op_local_response_norm = local_response_norm T,
      op_avg_pool2d = avg_pool2d T,
      op_reshape = reshape T,
      op_module = module_forward T sd\<rparr>"

text \<open>
  \<^verbatim>\<open>InceptionV1(redirected_ReLU=r).forward(x)\<close> with the state dictionary \<open>sd\<close>
  loaded.
\<close>

definition InceptionV1_forward ::
  "('a::linordered_field) torch \<Rightarrow> (string \<Rightarrow> 'a tensor option) \<Rightarrow> bool \<Rightarrow> 'a tensor
    \<Rightarrow> error + 'a tensor" where
  "InceptionV1_forward T sd redirected_ReLU x =
     run_forward (tensor_ops T sd) (modules redirected_ReLU) x"

subsection \<open>Notions used to state the properties of the network\<close>

text \<open>
  The zero-gradient region of the standard ReLU at an input tensor: the positions where
  the derivative of \<^verbatim>\<open>F.relu\<close> is zero.
\<close>

definition zero_gradient_region :: "('a::linordered_field) tensor \<Rightarrow> nat \<Rightarrow> bool" where
  "zero_gradient_region x i = (relu_grad (data x ! i) = 0)"

text \<open>The module table with every redirected activation replaced by the plain one.\<close>

definition unredirect :: "module \<Rightarrow> module" where
  "unredirect m = (if m = RedirectedReluLayer then ReluLayer else m)"

subsection \<open>The forward pass on symbolic expressions\<close>

text \<open>
  Running the statements over expressions instead of tensors records, for every variable,
  the operations that compute it from the variables bound at the start.
\<close>

datatype sym =
    Var string
  | SPad sym "nat list" pad_value
  | SLocalResponseNorm sym nat rat rat rat
  | SAvgPool2d sym "nat \<times> nat" "nat \<times> nat" "nat list" bool bool
  | SReshape sym "int list"
  | SModule string module "sym args"

definition sym_ops :: "sym ops" where
  "sym_ops =
     \<lparr>op_pad = (\<lambda>t pads val. Inr (SPad t pads val)),
      op_local_response_norm = (\<lambda>t sz alpha beta k. Inr (SLocalResponseNorm t sz alpha beta k)),
      op_avg_pool2d = (\<lambda>t ks st pd cm cip. Inr (SAvgPool2d t ks st pd cm cip)),
      op_reshape = (\<lambda>t shp. Inr (SReshape t shp)),
      op_module = (\<lambda>name md a. Inr (SModule name md a))\<rparr>"

text \<open>
  The expression of variable \<open>v\<close> after the statements \<open>ss\<close>, in terms of the
  variable \<open>inp\<close> alone; \<open>None\<close> when a statement fails or \<open>v\<close> is not bound.
\<close>

definition expr_of ::
  "(string \<Rightarrow> module option) \<Rightarrow> stmt list \<Rightarrow> string \<Rightarrow> string \<Rightarrow> sym option" where
  "expr_of mods ss inp v =
     (case exec sym_ops mods ss (Map.empty(inp \<mapsto> Var inp)) of
        Inl e \<Rightarrow> None
      | Inr env \<Rightarrow> env v)"

text \<open>
  The shape of an inception block, after the words of the specification: four parallel
  branches on the block's input, concatenated by a \<^verbatim>\<open>CatLayer\<close> along dimension 1.
  The branches are a 1x1 convolution; a 1x1 bottleneck convolution, zero padding and a
  3x3 convolution; a 1x1 bottleneck convolution, zero padding and a 5x5 convolution; and
  a 3x3 max-pool with stride 1 over the input padded with minus infinity, then a 1x1
  convolution. Every convolution is followed by the activation the model was built with.
  The attribute names are those of block \<open>b\<close>.
\<close>

fun is_conv :: "nat \<times> nat \<Rightarrow> module \<Rightarrow> bool" where
  "is_conv ks (Conv2d i oc ks' st g b) = (ks' = ks)"
| "is_conv ks md = False"

definition activation :: "bool \<Rightarrow> module" where
  "activation redirected_ReLU = (if redirected_ReLU then RedirectedReluLayer else ReluLayer)"

fun conv_then_activation ::
  "bool \<Rightarrow> string \<Rightarrow> nat \<times> nat \<Rightarrow> (sym \<Rightarrow> bool) \<Rightarrow> sym \<Rightarrow> bool" where
  "conv_then_activation r name ks inner (SModule a act (Arg1 (SModule c conv (Arg1 e)))) =
     (a = name \<and> act = activation r \<and> c = name @ ''_pre_relu_conv'' \<and> is_conv ks conv
      \<and> inner e)"
| "conv_then_activation r name ks inner e = False"

fun zero_padded :: "nat \<Rightarrow> (sym \<Rightarrow> bool) \<Rightarrow> sym \<Rightarrow> bool" where
  "zero_padded p inner (SPad e pads Zero_default) = (pads = [p, p, p, p] \<and> inner e)"
| "zero_padded p inner e = False"

fun max_pooled :: "string \<Rightarrow> (sym \<Rightarrow> bool) \<Rightarrow> sym \<Rightarrow> bool" where
  "max_pooled name inner (SModule m MaxPool2dLayer (ArgPool (SPad e pads Neg_inf) ks st pd cm)) =
     (m = name \<and> pads = [1, 1, 1, 1] \<and> ks = (3, 3) \<and> st = (1, 1) \<and> pd = 0 \<and> \<not> cm
      \<and> inner e)"
| "max_pooled name inner e = False"

definition is_input :: "string \<Rightarrow> sym \<Rightarrow> bool" where
  "is_input inp e = (e = Var inp)"

fun inception_block :: "bool \<Rightarrow> string \<Rightarrow> string \<Rightarrow> sym \<Rightarrow> bool" where
  "inception_block r b inp (SModule m CatLayer (ArgCat [b1, b2, b3, b4] d)) =
     (m = b \<and> d = 1
      \<and> conv_then_activation r (b @ ''_1x1'') (1, 1) (is_input inp) b1
      \<and> conv_then_activation r (b @ ''_3x3'') (3, 3)
          (zero_padded 1
            (conv_then_activation r (b @ ''_3x3_bottleneck'') (1, 1) (is_input inp))) b2
      \<and> conv_then_activation r (b @ ''_5x5'') (5, 5)
          (zero_padded 2
            (conv_then_activation r (b @ ''_5x5_bottleneck'') (1, 1) (is_input inp))) b3
      \<and> conv_then_activation r (b @ ''_pool_reduce'') (1, 1)
          (max_pooled (b @ ''_pool'') (is_input inp)) b4)"
| "inception_block r b inp e = False"

text \<open>
  The nine blocks of the forward pass: the name of each, the variable it reads and its
  statements.
\<close>

definition mixed_blocks :: "(string \<times> string \<times> stmt list) list" where
  "mixed_blocks =
     [(''mixed3a'', ''maxpool1'', forward_mixed3a),
      (''mixed3b'', ''mixed3a'', forward_mixed3b),
      (''mixed4a'', ''maxpool4'', forward_mixed4a),
      (''mixed4b'', ''mixed4a'', forward_mixed4b),
      (''mixed4c'', ''mixed4b'', forward_mixed4c),
      (''mixed4d'', ''mixed4c'', forward_mixed4d),
      (''mixed4e'', ''mixed4d'', forward_mixed4e),
      (''mixed5a'', ''maxpool10'', forward_mixed5a),
      (''mixed5b'', ''mixed5a'', forward_mixed5b)]"

definition block_ok :: "bool \<Rightarrow> string \<times> string \<times> stmt list \<Rightarrow> bool" where
  "block_ok r blk =
     (case blk of (b, inp, ss) \<Rightarrow>
        (case expr_of (modules r) ss inp b of
           None \<Rightarrow> False
         | Some e \<Rightarrow> inception_block r b inp e))"

subsection \<open>The blocks on tensors\<close>

text \<open>
  A framework whose kernels always return: each kernel is a function on tensors. The
  forward pass over it never raises in a kernel, so that the value of a variable can be
  written as a composition of kernels.
\<close>

record 'a kernels =
  k_conv2d :: "module \<Rightarrow> 'a tensor option \<Rightarrow> 'a tensor option \<Rightarrow> 'a tensor \<Rightarrow> 'a tensor"
  k_linear :: "module \<Rightarrow> 'a tensor option \<Rightarrow> 'a tensor option \<Rightarrow> 'a tensor \<Rightarrow> 'a tensor"
  k_max_pool2d :: "'a tensor \<Rightarrow> nat \<times> nat \<Rightarrow> nat \<times> nat \<Rightarrow> nat \<Rightarrow> bool \<Rightarrow> 'a tensor"
  k_cat :: "'a tensor list \<Rightarrow> nat \<Rightarrow> 'a tensor"
  k_softmax :: "'a tensor \<Rightarrow> nat \<Rightarrow> 'a tensor"
  k_local_response_norm :: "'a tensor \<Rightarrow> nat \<Rightarrow> rat \<Rightarrow> rat \<Rightarrow> rat \<Rightarrow> 'a tensor"
  k_pad :: "'a tensor \<Rightarrow> nat list \<Rightarrow> pad_value \<Rightarrow> 'a tensor"
  k_avg_pool2d :: "'a tensor \<Rightarrow> nat \<times> nat \<Rightarrow> nat \<times> nat \<Rightarrow> nat list \<Rightarrow> bool \<Rightarrow> bool \<Rightarrow> 'a tensor"
  k_reshape :: "'a tensor \<Rightarrow> int list \<Rightarrow> 'a tensor"

definition total_torch :: "'a kernels \<Rightarrow> 'a torch" where
  "total_torch K =
     \<lparr>nn_conv2d = (\<lambda>md w b t. Inr (k_conv2d K md w b t)),
      nn_linear = (\<lambda>md w b t. Inr (k_linear K md w b t)),
      max_pool2d = (\<lambda>t ks st pd cm. Inr (k_max_pool2d K t ks st pd cm)),
      cat = (\<lambda>ts d. Inr (k_cat K ts d)),
      softmax = (\<lambda>t d. Inr (k_softmax K t d)),
      local_response_norm = (\<lambda>t sz alpha beta k. Inr (k_local_response_norm K t sz alpha beta k)),
      pad = (\<lambda>t pads val. Inr (k_pad K t pads val)),
      avg_pool2d = (\<lambda>t ks st pd cm cip. Inr (k_avg_pool2d K t ks st pd cm cip)),
      reshape = (\<lambda>t shp. Inr (k_reshape K t shp))\<rparr>"

text \<open>The convolution bound to attribute \<open>name\<close>, with its weight and bias.\<close>

definition conv_of ::
  "'a kernels \<Rightarrow> (string \<Rightarrow> 'a tensor option) \<Rightarrow> string \<Rightarrow> module \<Rightarrow> 'a tensor \<Rightarrow> 'a tensor" where
  "conv_of K sd name md t = k_conv2d K md (sd (name @ ''.weight'')) (sd (name @ ''.bias'')) t"

text \<open>
  The tensor that block \<open>b\<close> computes from the input tensor \<open>x\<close>, after the words of the
  specification: the framework's concatenation along dimension 1 of the four branches,
  each convolution being the one declared under the block's attribute name, with the
  kernel size the name says, and followed by the ReLU.
\<close>

definition block_forward_ok ::
  "('a::linordered_field) kernels \<Rightarrow> (string \<Rightarrow> 'a tensor option) \<Rightarrow> bool
    \<Rightarrow> string \<times> string \<times> stmt list \<Rightarrow> 'a tensor \<Rightarrow> bool" where
  "block_forward_ok K sd r blk x =
     (case blk of (b, inp, ss) \<Rightarrow>
        (\<exists>c1 c3b c3 c5b c5 cp.
           modules r (b @ ''_1x1_pre_relu_conv'') = Some c1 \<and> is_conv (1, 1) c1
           \<and> modules r (b @ ''_3x3_bottleneck_pre_relu_conv'') = Some c3b \<and> is_conv (1, 1) c3b
           \<and> modules r (b @ ''_3x3_pre_relu_conv'') = Some c3 \<and> is_conv (3, 3) c3
           \<and> modules r (b @ ''_5x5_bottleneck_pre_relu_conv'') = Some c5b \<and> is_conv (1, 1) c5b
           \<and> modules r (b @ ''_5x5_pre_relu_conv'') = Some c5 \<and> is_conv (5, 5) c5
           \<and> modules r (b @ ''_pool_reduce_pre_relu_conv'') = Some cp \<and> is_conv (1, 1) cp
           \<and> (case exec (tensor_ops (total_torch K) sd) (modules r) ss (Map.empty(inp \<mapsto> x)) of
                 Inl e \<Rightarrow> False
               | Inr env \<Rightarrow>
                   env b =
                     Some (k_cat K
                       [F_relu (conv_of K sd (b @ ''_1x1_pre_relu_conv'') c1 x),
                        F_relu (conv_of K sd (b @ ''_3x3_pre_relu_conv'') c3
                          (k_pad K
                            (F_relu (conv_of K sd (b @ ''_3x3_bottleneck_pre_relu_conv'') c3b x))
                            [1, 1, 1, 1] Zero_default)),
                        F_relu (conv_of K sd (b @ ''_5x5_pre_relu_conv'') c5
                          (k_pad K
                            (F_relu (conv_of K sd (b @ ''_5x5_bottleneck_pre_relu_conv'') c5b x))
                            [2, 2, 2, 2] Zero_default)),
                        F_relu (conv_of K sd (b @ ''_pool_reduce_pre_relu_conv'') cp
                          (k_max_pool2d K (k_pad K x [1, 1, 1, 1] Neg_inf) (3, 3) (1, 1) 0
                            False))]
                       1))))"

text \<open>The targets of the statements that call a module on a tuple of tensors.\<close>

fun is_cat_call :: "call \<Rightarrow> bool" where
  "is_cat_call (Self_cat m vs d) = True"
| "is_cat_call c = False"

definition cat_targets :: "stmt list \<Rightarrow> string list" where
  "cat_targets ss = map fst (filter (\<lambda>s. is_cat_call (snd s)) ss)"

text \<open>The statements that apply local-response normalization.\<close>

fun is_lrn_call :: "call \<Rightarrow> bool" where
  "is_lrn_call (F_local_response_norm v sz alpha beta k) = True"
| "is_lrn_call c = False"

definition lrn_calls :: "stmt list \<Rightarrow> stmt list" where
  "lrn_calls ss = filter (\<lambda>s. is_lrn_call (snd s)) ss"

fun is_pool_call :: "call \<Rightarrow> bool" where
  "is_pool_call (Self_pool m v ks st pd cm) = True"
| "is_pool_call c = False"

definition pool_targets :: "stmt list \<Rightarrow> string list" where
  "pool_targets ss = map fst (filter (\<lambda>s. is_pool_call (snd s)) ss)"

subsection \<open>The forward pass on channel counts\<close>

text \<open>
  Running the statements over the size of dimension 1 alone. Padding of the last two
  dimensions, pooling, normalization, the activations and softmax over dimension 1 keep
  it. A convolution with \<^verbatim>\<open>groups=1\<close> and a linear layer demand their declared
  input size, as the framework does with a RuntimeError, and give their output size.
  Concatenation along dimension 1 adds the sizes. A reshape to \<^verbatim>\<open>(-1, n)\<close> gives
  \<open>n\<close>. Any other use is outside this analysis and reported as an error.
\<close>

fun channels_module :: "string \<Rightarrow> module \<Rightarrow> nat args \<Rightarrow> error + nat" where
  "channels_module name (Conv2d i oc ks st g b) (Arg1 c) =
     (if g = 1 \<and> c = i then Inr oc else Inl RuntimeError)"
| "channels_module name (Linear i oc b) (Arg1 c) = (if c = i then Inr oc else Inl RuntimeError)"
| "channels_module name ReluLayer (Arg1 c) = Inr c"
| "channels_module name RedirectedReluLayer (Arg1 c) = Inr c"
| "channels_module name MaxPool2dLayer (Arg1 c) = Inr c"
| "channels_module name MaxPool2dLayer (ArgPool c ks st pd cm) = Inr c"
| "channels_module name CatLayer (ArgCat cs d) =
     (if d = 1 then Inr (sum_list cs) else Inl RuntimeError)"
| "channels_module name SoftMaxLayer (Arg1 c) = Inr c"
| "channels_module name LocalResponseNormLayer (Arg1 c) = Inr c"
| "channels_module name md a = Inl TypeError"

fun channels_reshape :: "nat \<Rightarrow> int list \<Rightarrow> error + nat" where
  "channels_reshape c [m, n] = (if m = - 1 \<and> 0 < n then Inr (nat n) else Inl RuntimeError)"
| "channels_reshape c shp = Inl RuntimeError"

fun channels_pad :: "nat \<Rightarrow> nat list \<Rightarrow> pad_value \<Rightarrow> error + nat" where
  "channels_pad c [l, r, t, b] val = Inr c"
| "channels_pad c pads val = Inl RuntimeError"

definition channel_ops :: "nat ops" where
  "channel_ops =
     \<lparr>op_pad = channels_pad,
      op_local_response_norm = (\<lambda>c sz alpha beta k. Inr c),
      op_avg_pool2d = (\<lambda>c ks st pd cm cip. Inr c),
      op_reshape = channels_reshape,
      op_module = channels_module\<rparr>"

text \<open>
  The sum of the declared \<^verbatim>\<open>out_channels\<close> of the four convolutions that end the
  branches of block \<open>b\<close>: 1x1, 3x3, 5x5 and pool_reduce.
\<close>

fun declared_out :: "module option \<Rightarrow> nat option" where
  "declared_out (Some (Conv2d i oc ks st g b)) = Some oc"
| "declared_out md = None"

fun declared_in :: "module option \<Rightarrow> nat option" where
  "declared_in (Some (Conv2d i oc ks st g b)) = Some i"
| "declared_in (Some (Linear i oc b)) = Some i"
| "declared_in md = None"

definition branch_channels :: "bool \<Rightarrow> string \<Rightarrow> nat option list" where
  "branch_channels r b =
     map (\<lambda>s. declared_out (modules r (b @ s @ ''_pre_relu_conv'')))
       [''_1x1'', ''_3x3'', ''_5x5'', ''_pool_reduce'']"

text \<open>
  Every application of a convolution or a linear layer in the statements: the variable
  it reads and the input size the layer declares.
\<close>

fun weighted_input :: "(string \<Rightarrow> module option) \<Rightarrow> call \<Rightarrow> (string \<times> nat) list" where
  "weighted_input mods (Self_apply m v) =
     (case declared_in (mods m) of None \<Rightarrow> [] | Some i \<Rightarrow> [(v, i)])"
| "weighted_input mods c = []"

definition weighted_inputs ::
  "(string \<Rightarrow> module option) \<Rightarrow> stmt list \<Rightarrow> (string \<times> nat) list" where
  "weighted_inputs mods ss = concat (map (\<lambda>s. weighted_input mods (snd s)) ss)"

text \<open>
  The channel count of the concatenation that ends block \<open>b\<close>, from the declarations
  alone: the sum of the four \<^verbatim>\<open>out_channels\<close>.
\<close>

definition block_out_channels :: "bool \<Rightarrow> string \<Rightarrow> nat option" where
  "block_out_channels r b = map_option sum_list (those (branch_channels r b))"

text \<open>
  Block \<open>blk\<close> is channel-consistent for an input with \<open>cin\<close> channels: its statements
  run without a channel mismatch, every convolution in it reads a variable with as many
  channels as the convolution declares, and its output has \<open>cout\<close> channels, the number
  the declarations of its four branches add up to.
\<close>

definition block_channels_ok ::
  "bool \<Rightarrow> string \<times> string \<times> stmt list \<Rightarrow> nat \<times> nat \<Rightarrow> bool" where
  "block_channels_ok r blk io =
     (case blk of (b, inp, ss) \<Rightarrow>
        (case exec channel_ops (modules r) ss (Map.empty(inp \<mapsto> fst io)) of
           Inl e \<Rightarrow> False
         | Inr env \<Rightarrow>
             env b = Some (snd io)
             \<and> block_out_channels r b = Some (snd io)
             \<and> list_all (\<lambda>vi. env (fst vi) = Some (snd vi))
                  (weighted_inputs (modules r) ss)))"

text \<open>
  The binding a sequence of assignments leaves for key \<open>k\<close>, scanning from the first
  assignment to the last and starting from \<open>acc\<close>.
\<close>

fun last_binding :: "('k \<times> 'v) list \<Rightarrow> 'k \<Rightarrow> 'v option \<Rightarrow> 'v option" where
  "last_binding [] k acc = acc"
| "last_binding ((a, b) # ps) k acc = last_binding ps k (if a = k then Some b else acc)"

section \<open>Arrays and the image helpers of io.py\<close>

subsection \<open>Floating-point values, element types and arrays in memory\<close>

text \<open>
  A real or imaginary part of a complex element: a finite number, an infinity or NaN,
  with the arithmetic and the comparisons of IEEE 754 on exact finite values.
\<close>

datatype rl = R real | RPInf | RNInf | RNaN

fun rl_isnan :: "rl \<Rightarrow> bool" where
  "rl_isnan RNaN = True"
| "rl_isnan x = False"

fun rl_less :: "rl \<Rightarrow> rl \<Rightarrow> bool" where
  "rl_less RNaN y = False"
| "rl_less x RNaN = False"
| "rl_less (R a) (R b) = (a < b)"
| "rl_less RNInf RNInf = False"
| "rl_less RNInf y = True"
| "rl_less x RNInf = False"
| "rl_less RPInf y = False"
| "rl_less x RPInf = True"

definition rl_eq :: "rl \<Rightarrow> rl \<Rightarrow> bool" where
  "rl_eq x y = (\<not> rl_isnan x \<and> \<not> rl_isnan y \<and> x = y)"

fun rl_neg :: "rl \<Rightarrow> rl" where
  "rl_neg (R a) = R (- a)"
| "rl_neg RPInf = RNInf"
| "rl_neg RNInf = RPInf"
| "rl_neg RNaN = RNaN"

fun rl_add :: "rl \<Rightarrow> rl \<Rightarrow> rl" where
  "rl_add RNaN y = RNaN"
| "rl_add x RNaN = RNaN"
| "rl_add (R a) (R b) = R (a + b)"
| "rl_add RPInf RNInf = RNaN"
| "rl_add RNInf RPInf = RNaN"
| "rl_add RPInf y = RPInf"
| "rl_add RNInf y = RNInf"
| "rl_add x RPInf = RPInf"
| "rl_add x RNInf = RNInf"

fun rl_sign :: "rl \<Rightarrow> int" where
  "rl_sign (R a) = (if a < 0 then - 1 else if a = 0 then 0 else 1)"
| "rl_sign RPInf = 1"
| "rl_sign RNInf = - 1"
| "rl_sign RNaN = 0"

fun rl_mul :: "rl \<Rightarrow> rl \<Rightarrow> rl" where
  "rl_mul RNaN y = RNaN"
| "rl_mul x RNaN = RNaN"
| "rl_mul (R a) (R b) = R (a * b)"
| "rl_mul x y =
     (if rl_sign x * rl_sign y = 0 then RNaN
      else if rl_sign x * rl_sign y < 0 then RNInf else RPInf)"

fun rl_div :: "rl \<Rightarrow> rl \<Rightarrow> rl" where
  "rl_div RNaN y = RNaN"
| "rl_div x RNaN = RNaN"
| "rl_div (R a) (R b) =
     (if b \<noteq> 0 then R (a / b)
      else if a = 0 then RNaN else if a < 0 then RNInf else RPInf)"
| "rl_div (R a) y = R 0"
| "rl_div x (R b) =
     (if rl_sign x * (if b < 0 then - 1 else 1) < 0 then RNInf else RPInf)"
| "rl_div x y = RNaN"

text \<open>
  An array element: a finite number, an infinity or NaN, or a complex number with two
  parts. Finite arithmetic is exact (rounding and overflow are not modelled); the
  infinities and NaN follow IEEE 754. Integer elements are the finite values that are
  whole numbers; the elements of a complex array are the values \<open>Cx\<close>. Complex
  arithmetic is that of the parts: sum and negation part by part, the product
  \<open>(ac - bd) + (ad + bc)i\<close>, and NumPy's order on complex numbers, first by the real
  part and then by the imaginary part.
\<close>

datatype fl = Fin real | PInf | NInf | NaN | Cx rl rl

text \<open>The two parts of an element; a real element has the imaginary part zero.\<close>

fun parts :: "fl \<Rightarrow> rl \<times> rl" where
  "parts (Fin a) = (R a, R 0)"
| "parts PInf = (RPInf, R 0)"
| "parts NInf = (RNInf, R 0)"
| "parts NaN = (RNaN, R 0)"
| "parts (Cx a b) = (a, b)"

fun isnan :: "fl \<Rightarrow> bool" where
  "isnan NaN = True"
| "isnan (Cx a b) = (rl_isnan a \<or> rl_isnan b)"
| "isnan x = False"

text \<open>
  The order on complex numbers: the real parts decide, and when they are equal the
  imaginary parts do.
\<close>

definition cx_less :: "rl \<times> rl \<Rightarrow> rl \<times> rl \<Rightarrow> bool" where
  "cx_less x y =
     ((rl_less (fst x) (fst y) \<and> \<not> rl_isnan (snd x) \<and> \<not> rl_isnan (snd y))
      \<or> (rl_eq (fst x) (fst y) \<and> rl_less (snd x) (snd y)))"

text \<open>Comparison: false as soon as one side is NaN.\<close>

fun fl_less :: "fl \<Rightarrow> fl \<Rightarrow> bool" where
  "fl_less NaN y = False"
| "fl_less x NaN = False"
| "fl_less (Cx a b) y = cx_less (a, b) (parts y)"
| "fl_less x (Cx c d) = cx_less (parts x) (c, d)"
| "fl_less (Fin a) (Fin b) = (a < b)"
| "fl_less NInf NInf = False"
| "fl_less NInf y = True"
| "fl_less x NInf = False"
| "fl_less PInf y = False"
| "fl_less x PInf = True"

text \<open>
  Python's \<^verbatim>\<open>!=\<close> on numbers: NaN differs from everything, itself included, and a
  complex number with imaginary part zero equals the real number of its real part.
\<close>

definition fl_ne :: "fl \<Rightarrow> fl \<Rightarrow> bool" where
  "fl_ne x y = (isnan x \<or> isnan y \<or> parts x \<noteq> parts y)"

fun fl_neg :: "fl \<Rightarrow> fl" where
  "fl_neg (Fin a) = Fin (- a)"
| "fl_neg PInf = NInf"
| "fl_neg NInf = PInf"
| "fl_neg NaN = NaN"
| "fl_neg (Cx a b) = Cx (rl_neg a) (rl_neg b)"

fun fl_add :: "fl \<Rightarrow> fl \<Rightarrow> fl" where
  "fl_add NaN y = NaN"
| "fl_add x NaN = NaN"
| "fl_add (Cx a b) y = Cx (rl_add a (fst (parts y))) (rl_add b (snd (parts y)))"
| "fl_add x (Cx c d) = Cx (rl_add (fst (parts x)) c) (rl_add (snd (parts x)) d)"
| "fl_add (Fin a) (Fin b) = Fin (a + b)"
| "fl_add PInf NInf = NaN"
| "fl_add NInf PInf = NaN"
| "fl_add PInf y = PInf"
| "fl_add NInf y = NInf"
| "fl_add x PInf = PInf"
| "fl_add x NInf = NInf"

definition fl_sub :: "fl \<Rightarrow> fl \<Rightarrow> fl" where
  "fl_sub x y = fl_add x (fl_neg y)"

fun fl_sign :: "fl \<Rightarrow> int" where
  "fl_sign (Fin a) = (if a < 0 then - 1 else if a = 0 then 0 else 1)"
| "fl_sign PInf = 1"
| "fl_sign NInf = - 1"
| "fl_sign NaN = 0"
| "fl_sign (Cx a b) = 0"

definition cx_mul :: "rl \<times> rl \<Rightarrow> rl \<times> rl \<Rightarrow> fl" where
  "cx_mul x y =
     Cx (rl_add (rl_mul (fst x) (fst y)) (rl_neg (rl_mul (snd x) (snd y))))
        (rl_add (rl_mul (fst x) (snd y)) (rl_mul (snd x) (fst y)))"

fun fl_mul :: "fl \<Rightarrow> fl \<Rightarrow> fl" where
  "fl_mul NaN y = NaN"
| "fl_mul x NaN = NaN"
| "fl_mul (Cx a b) y = cx_mul (a, b) (parts y)"
| "fl_mul x (Cx c d) = cx_mul (parts x) (c, d)"
| "fl_mul (Fin a) (Fin b) = Fin (a * b)"
| "fl_mul x y =
     (if fl_sign x * fl_sign y = 0 then NaN
      else if fl_sign x * fl_sign y < 0 then NInf else PInf)"

text \<open>
  \<^verbatim>\<open>max_value / d\<close> with \<^verbatim>\<open>max_value = 255\<close>. The source divides only where the two
  ends of the domain differ; a zero difference would give an infinity in NumPy. By a
  complex number \<open>c + di\<close> the quotient is \<open>255 (c - di) / (c c + d d)\<close>.
\<close>

fun fl_div255 :: "fl \<Rightarrow> fl" where
  "fl_div255 (Fin d) = (if d = 0 then PInf else Fin (255 / d))"
| "fl_div255 PInf = Fin 0"
| "fl_div255 NInf = Fin 0"
| "fl_div255 NaN = NaN"
| "fl_div255 (Cx c d) =
     (let m = rl_add (rl_mul c c) (rl_mul d d)
      in Cx (rl_div (rl_mul (R 255) c) m) (rl_div (rl_neg (rl_mul (R 255) d)) m))"

text \<open>\<^verbatim>\<open>np.maximum\<close> and \<^verbatim>\<open>np.minimum\<close> on two elements: NaN propagates.\<close>

definition fl_maximum :: "fl \<Rightarrow> fl \<Rightarrow> fl" where
  "fl_maximum x y = (if isnan x \<or> isnan y then NaN else if fl_less x y then y else x)"

definition fl_minimum :: "fl \<Rightarrow> fl \<Rightarrow> fl" where
  "fl_minimum x y = (if isnan x \<or> isnan y then NaN else if fl_less y x then y else x)"

text \<open>\<^verbatim>\<open>clip(lo, hi)\<close> on one element: the minimum with \<open>hi\<close> of the maximum with \<open>lo\<close>.\<close>

definition fl_clip :: "fl \<Rightarrow> fl \<Rightarrow> fl \<Rightarrow> fl" where
  "fl_clip lo hi x = fl_minimum (fl_maximum x lo) hi"

text \<open>
  The element types, by kind and width in bits. \<^verbatim>\<open>np.number\<close> covers the integers,
  the floats and the complex types, \<^verbatim>\<open>np.inexact\<close> the floats and the complex types.
\<close>

datatype dtype =
  Bool | SignedInteger nat | UnsignedInteger nat | Floating nat | ComplexFloating nat | Object

fun issubdtype_number :: "dtype \<Rightarrow> bool" where
  "issubdtype_number (SignedInteger w) = True"
| "issubdtype_number (UnsignedInteger w) = True"
| "issubdtype_number (Floating w) = True"
| "issubdtype_number (ComplexFloating w) = True"
| "issubdtype_number d = False"

fun issubdtype_inexact :: "dtype \<Rightarrow> bool" where
  "issubdtype_inexact (Floating w) = True"
| "issubdtype_inexact (ComplexFloating w) = True"
| "issubdtype_inexact d = False"

fun issubdtype_unsignedinteger :: "dtype \<Rightarrow> bool" where
  "issubdtype_unsignedinteger (UnsignedInteger w) = True"
| "issubdtype_unsignedinteger d = False"

definition uint8 :: dtype where
  "uint8 = UnsignedInteger 8"

text \<open>
  Memory is a list of buffers; an address is an index into it. An array object refers to
  a buffer and carries its own shape and element type, so that a view shares the buffer
  of the array it was taken from.
\<close>

type_synonym heap = "fl list list"

record ndarray =
  nd_base :: nat
  nd_shape :: "nat list"
  nd_dtype :: dtype

definition buffer :: "heap \<Rightarrow> ndarray \<Rightarrow> fl list" where
  "buffer h a = h ! nd_base a"

text \<open>An array is valid in a heap: its buffer exists and holds one element per index.\<close>

definition valid :: "heap \<Rightarrow> ndarray \<Rightarrow> bool" where
  "valid h a = (nd_base a < length h \<and> length (h ! nd_base a) = prod_list (nd_shape a))"

text \<open>A new array with a buffer of its own.\<close>

definition new_array :: "heap \<Rightarrow> nat list \<Rightarrow> dtype \<Rightarrow> fl list \<Rightarrow> heap \<times> ndarray" where
  "new_array h shp dt buf = (h @ [buf], \<lparr>nd_base = length h, nd_shape = shp, nd_dtype = dt\<rparr>)"

text \<open>An operator that works in place: the buffer of the array is overwritten.\<close>

definition in_place :: "heap \<Rightarrow> ndarray \<Rightarrow> (fl \<Rightarrow> fl) \<Rightarrow> heap" where
  "in_place h a f = h[nd_base a := map f (h ! nd_base a)]"

text \<open>\<^verbatim>\<open>np.array(array)\<close>: a copy.\<close>

definition np_array :: "heap \<Rightarrow> ndarray \<Rightarrow> heap \<times> ndarray" where
  "np_array h a = new_array h (nd_shape a) (nd_dtype a) (buffer h a)"

text \<open>\<^verbatim>\<open>np.squeeze(array)\<close>: a view without the axes of length one.\<close>

definition np_squeeze :: "ndarray \<Rightarrow> ndarray" where
  "np_squeeze a = a\<lparr>nd_shape := filter (\<lambda>d. d \<noteq> 1) (nd_shape a)\<rparr>"

text \<open>
  \<^verbatim>\<open>np.min\<close> and \<^verbatim>\<open>np.max\<close> of a whole array. NumPy raises ValueError on an array
  without elements.
\<close>

definition np_min :: "fl list \<Rightarrow> error + fl" where
  "np_min buf =
     (case buf of
        [] \<Rightarrow> Inl (ValueError ''zero-size array to reduction operation minimum which has no identity'')
      | x # xs \<Rightarrow> Inr (fold fl_minimum xs x))"

definition np_max :: "fl list \<Rightarrow> error + fl" where
  "np_max buf =
     (case buf of
        [] \<Rightarrow> Inl (ValueError ''zero-size array to reduction operation maximum which has no identity'')
      | x # xs \<Rightarrow> Inr (fold fl_maximum xs x))"

text \<open>
  \<^verbatim>\<open>array.clip(lo, hi)\<close>: a new array. With Python floats as bounds a float array keeps
  its type and an integer array becomes a float array.
\<close>

definition clip_dtype :: "dtype \<Rightarrow> dtype" where
  "clip_dtype dt = (if issubdtype_inexact dt then dt else Floating 64)"

definition np_clip :: "heap \<Rightarrow> ndarray \<Rightarrow> fl \<Rightarrow> fl \<Rightarrow> dtype \<Rightarrow> heap \<times> ndarray" where
  "np_clip h a lo hi dt = new_array h (nd_shape a) dt (map (fl_clip lo hi) (buffer h a))"

text \<open>
  \<^verbatim>\<open>astype(np.uint8)\<close> on one element: the imaginary part of a complex element is
  discarded, the fraction is dropped and the value taken modulo 256. What a NaN or an
  infinity converts to depends on the platform; it is some byte, here zero.
\<close>

fun to_uint8 :: "fl \<Rightarrow> fl" where
  "to_uint8 (Fin v) = Fin (of_int ((if v < 0 then \<lceil>v\<rceil> else \<lfloor>v\<rfloor>) mod 256))"
| "to_uint8 (Cx (R v) b) = Fin (of_int ((if v < 0 then \<lceil>v\<rceil> else \<lfloor>v\<rfloor>) mod 256))"
| "to_uint8 x = Fin 0"

definition astype_uint8 :: "heap \<Rightarrow> ndarray \<Rightarrow> heap \<times> ndarray" where
  "astype_uint8 h a = new_array h (nd_shape a) uint8 (map to_uint8 (buffer h a))"

subsection \<open>normalize_array\<close>

text \<open>
  Lines 34 to 82. The result is the heap after the call and either the exception raised
  or the array returned. The domain is a pair of Python floats or \<^verbatim>\<open>None\<close>. The steps
  are those of the source: copy, squeeze, the three assertions, minimum and maximum, the
  measured range when no domain is given, clipping into the domain when an element lies
  outside it, for a float array the subtraction of the offset and the scaling, both in
  place, and at the end the clip to 0..255 and the conversion to uint8.
\<close>

definition normalize_array ::
  "heap \<Rightarrow> ndarray \<Rightarrow> (fl \<times> fl) option \<Rightarrow> heap \<times> (error + ndarray)" where
  "normalize_array h0 array0 domain0 =
     (let (h1, array1) = np_array h0 array0;
          array2 = np_squeeze array1
      in if \<not> length (nd_shape array2) \<le> 3 then (h1, Inl AssertionError)
         else if \<not> issubdtype_number (nd_dtype array2) then (h1, Inl AssertionError)
         else if list_ex isnan (buffer h1 array2) then (h1, Inl AssertionError)
         else
           (case np_min (buffer h1 array2) of
              Inl e \<Rightarrow> (h1, Inl e)
            | Inr low \<Rightarrow>
           (case np_max (buffer h1 array2) of
              Inl e \<Rightarrow> (h1, Inl e)
            | Inr high \<Rightarrow>
                (let domain = (case domain0 of None \<Rightarrow> (low, high) | Some d \<Rightarrow> d);
                     (h2, array3) =
                       (if fl_less low (fst domain) \<or> fl_less (snd domain) high
                        then np_clip h1 array2 (fst domain) (snd domain)
                               (clip_dtype (nd_dtype array2))
                        else (h1, array2));
                     h3 =
                       (if issubdtype_inexact (nd_dtype array3)
                        then
                          (let offset = fst domain;
                               h2a = (if fl_ne offset (Fin 0)
                                      then in_place h2 array3 (\<lambda>x. fl_sub x offset) else h2)
                           in if fl_ne (fst domain) (snd domain)
                              then
                                (let scalar = fl_div255 (fl_sub (snd domain) (fst domain))
                                 in if fl_ne scalar (Fin 1)
                                    then in_place h2a array3 (\<lambda>x. fl_mul x scalar) else h2a)
                              else h2a)
                        else h2);
                     (h4, array4) = np_clip h3 array3 (Fin 0) (Fin 255) (nd_dtype array3);
                     (h5, array5) = astype_uint8 h4 array4
                 in (h5, Inr array5)))))"

subsection \<open>Strings\<close>

text \<open>Characters that cannot stand inside a string literal here.\<close>

definition dq :: string where "dq = [CHR 0x22]"
definition sq :: string where "sq = [CHR 0x27]"
definition nl :: string where "nl = [CHR 0x0A]"

fun starts_with :: "string \<Rightarrow> string \<Rightarrow> bool" where
  "starts_with [] s = True"
| "starts_with (p # ps) [] = False"
| "starts_with (p # ps) (c # cs) = (p = c \<and> starts_with ps cs)"

text \<open>Python's \<^verbatim>\<open>sub in s\<close> on strings: \<open>sub\<close> occurs in \<open>s\<close> as a substring.\<close>

fun py_in :: "string \<Rightarrow> string \<Rightarrow> bool" where
  "py_in sub [] = (sub = [])"
| "py_in sub (c # cs) = (starts_with sub (c # cs) \<or> py_in sub cs)"

text \<open>
  \<^verbatim>\<open>s.replace(old, "")\<close>: every occurrence of \<open>old\<close>, from the left and without
  overlap, is removed.
\<close>

function remove_all :: "string \<Rightarrow> string \<Rightarrow> string" where
  "remove_all old [] = []"
| "remove_all old (c # cs) =
     (if old \<noteq> [] \<and> starts_with old (c # cs)
      then remove_all old (drop (length old) (c # cs))
      else c # remove_all old cs)"
  by pat_completeness auto
termination
  by (relation "measure (\<lambda>(old, s). length s)") auto

text \<open>\<^verbatim>\<open>s.split(".")[-1]\<close>: what follows the last dot, or all of \<open>s\<close> without a dot.\<close>

definition after_last_dot :: "string \<Rightarrow> string" where
  "after_last_dot s = rev (takeWhile (\<lambda>c. c \<noteq> CHR ''.'') (rev s))"

text \<open>\<^verbatim>\<open>str(n)\<close> for an integer.\<close>

fun str_nat :: "nat \<Rightarrow> string" where
  "str_nat n =
     (if n < 10 then [char_of (48 + n)] else str_nat (n div 10) @ [char_of (48 + n mod 10)])"

definition str_int :: "int \<Rightarrow> string" where
  "str_int i = (if i < 0 then ''-'' @ str_nat (nat (- i)) else str_nat (nat i))"

text \<open>\<^verbatim>\<open>fmt.upper()\<close> on ASCII text: the letters a to z become A to Z.\<close>

definition upper_char :: "char \<Rightarrow> char" where
  "upper_char c =
     (let n = (of_char c :: nat) in if 97 \<le> n \<and> n \<le> 122 then char_of (n - 32) else c)"

definition upper :: "string \<Rightarrow> string" where
  "upper s = map upper_char s"

subsection \<open>Base64\<close>

text \<open>
  \<^verbatim>\<open>base64.b64encode(data).decode("ascii")\<close>: the standard alphabet, three bytes to four
  characters, padded with \<^verbatim>\<open>=\<close>. A byte is a number below 256.
\<close>

definition b64_alphabet :: string where
  "b64_alphabet = ''ABCDEFGHIJKLMNOPQRSTUVWXYZabcdefghijklmnopqrstuvwxyz0123456789+/''"

definition b64_char :: "nat \<Rightarrow> char" where
  "b64_char n = b64_alphabet ! (n mod 64)"

fun b64encode :: "nat list \<Rightarrow> string" where
  "b64encode [] = []"
| "b64encode [a] = [b64_char (a div 4), b64_char ((a mod 4) * 16), CHR ''='', CHR ''='']"
| "b64encode [a, b] =
     [b64_char (a div 4), b64_char ((a mod 4) * 16 + b div 16), b64_char ((b mod 16) * 4),
      CHR ''='']"
| "b64encode (a # b # c # rest) =
     [b64_char (a div 4), b64_char ((a mod 4) * 16 + b div 16),
      b64_char ((b mod 16) * 4 + c div 64), b64_char (c mod 64)] @ b64encode rest"

subsection \<open>The image codecs and the file system\<close>

text \<open>A file the helpers write: its kind, its name and the arrays (shape and elements) in it.\<close>

datatype file_write =
    Npy string "nat list" "fl list"
  | Png string "nat list" "fl list"
  | Mp4 string int "nat \<times> nat" "(nat list \<times> fl list) list"
  | Gif string "(nat list \<times> fl list) list"

text \<open>
  What lies outside the repository is a parameter: the image codec
  (\<^verbatim>\<open>PIL.Image.fromarray\<close> followed by \<^verbatim>\<open>image.save\<close> into a buffer), which gives the
  encoded bytes or fails with a message, and the writing of a file, which succeeds or
  fails with a message.
\<close>

record lib =
  image_encode :: "nat list \<Rightarrow> fl list \<Rightarrow> string \<Rightarrow> int \<Rightarrow> string + nat list"
  write_fails :: "file_write \<Rightarrow> string option"

subsection \<open>Serialization and data URLs\<close>

definition fl_le :: "fl \<Rightarrow> fl \<Rightarrow> bool" where
  "fl_le x y = (fl_less x y \<or> (\<not> isnan x \<and> \<not> isnan y \<and> parts x = parts y))"

fun iinfo_max :: "dtype \<Rightarrow> fl" where
  "iinfo_max (UnsignedInteger w) = Fin (2 ^ w - 1)"
| "iinfo_max (SignedInteger w) = Fin (2 ^ (w - 1) - 1)"
| "iinfo_max d = NaN"

text \<open>
  Lines 85 to 113, \<^verbatim>\<open>_serialize_normalized_array\<close>; the leading underscore of the name
  is dropped here and below. \<^verbatim>\<open>array.shape[-1]\<close> on an array without axes raises
  IndexError.
\<close>

definition serialize_normalized_array ::
  "lib \<Rightarrow> heap \<Rightarrow> ndarray \<Rightarrow> string \<Rightarrow> int \<Rightarrow> error + nat list" where
  "serialize_normalized_array L h array fmt quality =
     (if \<not> issubdtype_unsignedinteger (nd_dtype array) then Inl AssertionError
      else
        (case np_max (buffer h array) of
           Inl e \<Rightarrow> Inl e
         | Inr m \<Rightarrow>
             if \<not> fl_le m (iinfo_max (nd_dtype array)) then Inl AssertionError
             else if nd_shape array = [] then Inl IndexError
             else if \<not> last (nd_shape array) > 1 then Inl AssertionError
             else
               (case image_encode L (nd_shape array) (buffer h array) fmt quality of
                  Inl msg \<Rightarrow> Inl (LibraryError msg)
                | Inr image_data \<Rightarrow> Inr image_data)))"

text \<open>Lines 294 to 314.\<close>

definition serialize_array ::
  "lib \<Rightarrow> heap \<Rightarrow> ndarray \<Rightarrow> (fl \<times> fl) option \<Rightarrow> string \<Rightarrow> int \<Rightarrow> error + nat list" where
  "serialize_array L h array domain fmt quality =
     (case normalize_array h array domain of
        (h', Inl e) \<Rightarrow> Inl e
      | (h', Inr normalized) \<Rightarrow> serialize_normalized_array L h' normalized fmt quality)"

text \<open>
  Lines 376 to 410, \<^verbatim>\<open>_image_url\<close>. \<^verbatim>\<open>supported_modes\<close> is the string
  \<^verbatim>\<open>"data"\<close>, so \<^verbatim>\<open>mode not in supported_modes\<close> is a substring test.
\<close>

definition supported_modes :: string where
  "supported_modes = ''data''"

definition image_url ::
  "lib \<Rightarrow> heap \<Rightarrow> ndarray \<Rightarrow> string \<Rightarrow> string \<Rightarrow> int \<Rightarrow> (fl \<times> fl) option \<Rightarrow> error + string" where
  "image_url L h array fmt mode quality domain =
     (if \<not> py_in mode supported_modes then Inl (ValueError ''Unsupported mode'')
      else
        (case serialize_array L h array domain fmt quality of
           Inl e \<Rightarrow> Inl e
         | Inr image_data \<Rightarrow>
             Inr (''data:image/'' @ upper fmt @ '';base64,'' @ b64encode image_data)))"

subsection \<open>HTML display\<close>

text \<open>A label or title: a string, or an integer as \<^verbatim>\<open>show_images\<close> makes by default.\<close>

datatype label = LStr string | LInt int

fun truthy :: "label \<Rightarrow> bool" where
  "truthy (LStr s) = (s \<noteq> [])"
| "truthy (LInt i) = (i \<noteq> 0)"

fun py_str :: "label \<Rightarrow> string" where
  "py_str (LStr s) = s"
| "py_str (LInt i) = str_int i"

text \<open>Lines 413 to 428, \<^verbatim>\<open>_image_html\<close>; mode and quality take their defaults.\<close>

definition image_html ::
  "lib \<Rightarrow> heap \<Rightarrow> ndarray \<Rightarrow> int option \<Rightarrow> (fl \<times> fl) option \<Rightarrow> string \<Rightarrow> label
    \<Rightarrow> error + string" where
  "image_html L h array width domain fmt title =
     (case image_url L h array fmt ''data'' 90 domain of
        Inl e \<Rightarrow> Inl e
      | Inr url \<Rightarrow>
          (let style = ''image-rendering: pixelated;''
                 @ (case width of None \<Rightarrow> [] | Some w \<Rightarrow> ''width: '' @ str_int w @ ''px;'');
               title_h = (if truthy title then ''<h4>'' @ py_str title @ ''</h4>'' else [])
           in Inr (title_h @ ''<img src='' @ dq @ url @ dq @ '' style='' @ dq @ style @ dq
                   @ '' alt='' @ py_str title @ ''>'')))"

text \<open>
  \<^verbatim>\<open>np.ceil(np.sqrt(n)).astype(int)\<close>: the least \<open>r\<close> with \<open>n \<le> r * r\<close>; the
  floating-point square root is taken as exact.
\<close>

fun ceil_sqrt_from :: "nat \<Rightarrow> nat \<Rightarrow> nat \<Rightarrow> nat" where
  "ceil_sqrt_from 0 r n = r"
| "ceil_sqrt_from (Suc fuel) r n = (if n \<le> r * r then r else ceil_sqrt_from fuel (Suc r) n)"

definition ceil_sqrt :: "nat \<Rightarrow> nat" where
  "ceil_sqrt n = ceil_sqrt_from n 0 n"

text \<open>
  Lines 513 to 516 and the two loops of lines 526 to 530: the rows of the table, each the
  indices of the images that get a cell in it. \<^verbatim>\<open>n_rows or ...\<close> replaces
  \<^verbatim>\<open>None\<close> and zero; the floor division is Python's, and with the NumPy integer that
  the square root gives a division by zero yields zero.
\<close>

definition table_rows :: "nat \<Rightarrow> int option \<Rightarrow> nat list list" where
  "table_rows n n_rows0 =
     (let n_rows = (case n_rows0 of
                      None \<Rightarrow> int (ceil_sqrt n)
                    | Some k \<Rightarrow> if k = 0 then int (ceil_sqrt n) else k);
          n_cols = int n div n_rows;
          n_rows = (if n_rows * n_cols < int n then n_rows + 1 else n_rows)
      in map (\<lambda>i. map nat (filter (\<lambda>idx. idx < int n)
                    (map (\<lambda>j. int i * n_cols + int j) [0..<nat n_cols])))
           [0..<nat n_rows])"

text \<open>One cell: \<^verbatim>\<open>labels[idx]\<close> is read before \<^verbatim>\<open>_image_html\<close> is called.\<close>

definition table_cell ::
  "lib \<Rightarrow> heap \<Rightarrow> ndarray list \<Rightarrow> label list option \<Rightarrow> (fl \<times> fl) option \<Rightarrow> int option
    \<Rightarrow> string \<Rightarrow> nat \<Rightarrow> error + string" where
  "table_cell L h images labels domain width fmt idx =
     (case labels of
        None \<Rightarrow> Inl TypeError
      | Some ls \<Rightarrow>
          if \<not> idx < length ls then Inl IndexError
          else
            (case image_html L h (images ! idx) width domain fmt (ls ! idx) of
               Inl e \<Rightarrow> Inl e
             | Inr cell_html \<Rightarrow>
                 Inr (''<td style='' @ sq @ ''text-align: center;'' @ sq @ ''>'' @ cell_html
                      @ ''</td>'')))"

text \<open>The concatenation of the parts, up to the first that raises.\<close>

fun concat_results :: "(error + string) list \<Rightarrow> error + string" where
  "concat_results [] = Inr []"
| "concat_results (Inl e # rs) = Inl e"
| "concat_results (Inr s # rs) =
     (case concat_results rs of Inl e \<Rightarrow> Inl e | Inr t \<Rightarrow> Inr (s @ t))"

definition table_header :: string where
  "table_header =
     ''<style>'' @ nl @ ''    td:hover {'' @ nl @ ''        transition: transform 0.5s;'' @ nl
     @ ''        transform: scale(1.1);'' @ nl @ ''        }'' @ nl @ ''    </style>'' @ nl
     @ ''    <table style='' @ sq @ ''border-collapse: collapse;'' @ sq @ ''>'' @ nl @ ''    ''"

text \<open>Lines 485 to 537, \<^verbatim>\<open>_create_image_table\<close>.\<close>

definition create_image_table ::
  "lib \<Rightarrow> heap \<Rightarrow> ndarray list \<Rightarrow> label list option \<Rightarrow> (fl \<times> fl) option \<Rightarrow> int option
    \<Rightarrow> string \<Rightarrow> int option \<Rightarrow> error + string" where
  "create_image_table L h images labels domain width fmt n_rows =
     (case concat_results
             (map (\<lambda>row.
                     case concat_results
                            (map (table_cell L h images labels domain width fmt) row) of
                       Inl e \<Rightarrow> Inl e
                     | Inr cells \<Rightarrow> Inr (''<tr>'' @ cells @ ''</tr>''))
                  (table_rows (length images) n_rows)) of
        Inl e \<Rightarrow> Inl e
      | Inr rows \<Rightarrow> Inr (table_header @ rows @ ''</table>''))"

text \<open>
  Lines 540 to 572, \<^verbatim>\<open>show_images\<close>: the default labels are the integers from 1, and
  the result is the HTML handed to the display.
\<close>

definition show_images ::
  "lib \<Rightarrow> heap \<Rightarrow> ndarray list \<Rightarrow> label list option \<Rightarrow> (fl \<times> fl) option \<Rightarrow> int option
    \<Rightarrow> string \<Rightarrow> int \<Rightarrow> error + string" where
  "show_images L h images labels domain width fmt n_rows =
     (let labels = (case labels of
                      None \<Rightarrow> map (\<lambda>i. LInt (int i)) [1..<length images + 1]
                    | Some ls \<Rightarrow> if ls = [] then map (\<lambda>i. LInt (int i)) [1..<length images + 1]
                                 else ls)
      in case create_image_table L h images (Some labels) domain width fmt (Some n_rows) of
           Inl e \<Rightarrow> Inl e
         | Inr images_html \<Rightarrow>
             Inr (''<div style='' @ dq @ ''display: flex; flex-direction: row;'' @ dq @ ''>''
                  @ ''<div style='' @ dq @ ''margin-right:10px; margin-top: 4px;'' @ dq @ ''>''
                  @ nl @ ''                        '' @ images_html @ nl
                  @ ''                    </div>'' @ ''</div>''))"

subsection \<open>Saving images\<close>

text \<open>\<^verbatim>\<open>[normalize_array(image, domain) for image in images]\<close>: stops at the first exception.\<close>

fun normalize_all ::
  "heap \<Rightarrow> ndarray list \<Rightarrow> (fl \<times> fl) option \<Rightarrow> heap \<times> (error + ndarray list)" where
  "normalize_all h [] domain = (h, Inr [])"
| "normalize_all h (img # images) domain =
     (case normalize_array h img domain of
        (h1, Inl e) \<Rightarrow> (h1, Inl e)
      | (h1, Inr a) \<Rightarrow>
          (case normalize_all h1 images domain of
             (h2, Inl e) \<Rightarrow> (h2, Inl e)
           | (h2, Inr rest) \<Rightarrow> (h2, Inr (a # rest))))"

text \<open>
  Writing one file: the files written so far and the exception, if any. A write the
  library refuses leaves no file and raises.
\<close>

definition do_write :: "lib \<Rightarrow> file_write \<Rightarrow> file_write list \<times> error option" where
  "do_write L w =
     (case write_fails L w of None \<Rightarrow> ([w], None) | Some msg \<Rightarrow> ([], Some (LibraryError msg)))"

fun do_writes :: "lib \<Rightarrow> file_write list \<Rightarrow> file_write list \<times> error option" where
  "do_writes L [] = ([], None)"
| "do_writes L (w # ws) =
     (case write_fails L w of
        Some msg \<Rightarrow> ([], Some (LibraryError msg))
      | None \<Rightarrow> (case do_writes L ws of (written, err) \<Rightarrow> (w # written, err)))"

definition content :: "heap \<Rightarrow> ndarray \<Rightarrow> nat list \<times> fl list" where
  "content h a = (nd_shape a, buffer h a)"

text \<open>
  \<^verbatim>\<open>np.save(save_path, np.stack(images))\<close>. \<^verbatim>\<open>np.stack\<close> raises ValueError without
  arrays and on arrays of different shapes; \<^verbatim>\<open>np.save\<close> appends \<^verbatim>\<open>.npy\<close> to a name that
  does not end with it.
\<close>

definition ends_with :: "string \<Rightarrow> string \<Rightarrow> bool" where
  "ends_with suffix s = starts_with (rev suffix) (rev s)"

definition save_npy ::
  "lib \<Rightarrow> heap \<Rightarrow> ndarray list \<Rightarrow> string \<Rightarrow> file_write list \<times> error option" where
  "save_npy L h images save_path =
     (case images of
        [] \<Rightarrow> ([], Some (ValueError ''need at least one array to stack''))
      | a # rest \<Rightarrow>
          if \<not> list_all (\<lambda>b. nd_shape b = nd_shape a) rest
          then ([], Some (ValueError ''all input arrays must have the same shape''))
          else do_write L
                 (Npy (if ends_with ''.npy'' save_path then save_path else save_path @ ''.npy'')
                    (length images # nd_shape a) (concat (map (buffer h) images))))"

text \<open>Lines 208 to 216: one file for one image, numbered files otherwise.\<close>

definition save_png ::
  "lib \<Rightarrow> heap \<Rightarrow> ndarray list \<Rightarrow> string \<Rightarrow> file_write list \<times> error option" where
  "save_png L h images save_path0 =
     (let save_path = (if py_in ''.png'' save_path0 then remove_all ''.png'' save_path0
                       else save_path0)
      in if length images = 1
         then do_write L (Png (save_path @ ''.png'') (nd_shape (images ! 0)) (buffer h (images ! 0)))
         else do_writes L
                (map (\<lambda>(i, img).
                        Png (save_path @ ''_'' @ str_nat i @ ''.png'') (nd_shape img)
                          (buffer h img))
                   (enumerate 0 images)))"

text \<open>
  Lines 116 to 145, \<^verbatim>\<open>numpy_image_to_video\<close>: the images are normalized once more,
  without a domain; \<^verbatim>\<open>images[0]\<close> raises IndexError on an empty list and the unpacking
  of the shape into three names raises ValueError on any other rank.
\<close>

definition numpy_image_to_video ::
  "lib \<Rightarrow> heap \<Rightarrow> ndarray list \<Rightarrow> int \<Rightarrow> string \<Rightarrow> (fl \<times> fl) option
    \<Rightarrow> file_write list \<times> error option" where
  "numpy_image_to_video L h images0 fps filename domain =
     (case normalize_all h images0 domain of
        (h1, Inl e) \<Rightarrow> ([], Some e)
      | (h1, Inr images) \<Rightarrow>
          (case images of
             [] \<Rightarrow> ([], Some IndexError)
           | a # rest \<Rightarrow>
               (case nd_shape a of
                  [hh, ww, c] \<Rightarrow> do_write L (Mp4 filename fps (ww, hh) (map (content h1) images))
                | shp \<Rightarrow> ([], Some (ValueError ''unpack'')))))"

text \<open>Lines 148 to 173, \<^verbatim>\<open>numpy_image_to_gif\<close>.\<close>

definition numpy_image_to_gif ::
  "lib \<Rightarrow> heap \<Rightarrow> ndarray list \<Rightarrow> string \<Rightarrow> (fl \<times> fl) option
    \<Rightarrow> file_write list \<times> error option" where
  "numpy_image_to_gif L h images0 filename domain =
     (case normalize_all h images0 domain of
        (h1, Inl e) \<Rightarrow> ([], Some e)
      | (h1, Inr images) \<Rightarrow>
          (case images of
             [] \<Rightarrow> ([], Some IndexError)
           | a # rest \<Rightarrow> do_write L (Gif filename (map (content h1) images))))"

definition unsupported_save_type :: "string \<Rightarrow> error" where
  "unsupported_save_type save_type =
     ValueError (''Unsupported save type: '' @ save_type @ ''. Only '' @ sq @ ''npy'' @ sq
       @ '', '' @ sq @ ''png'' @ sq @ '', '' @ sq @ ''mp4'' @ sq @ '' and '' @ sq @ ''gif''
       @ sq @ '' are supported.'')"

text \<open>
  Lines 176 to 224, \<^verbatim>\<open>save_images\<close>: the files written, in order, and the exception
  raised, if any.
\<close>

definition save_images ::
  "lib \<Rightarrow> heap \<Rightarrow> ndarray list \<Rightarrow> string \<Rightarrow> (fl \<times> fl) option \<Rightarrow> int
    \<Rightarrow> file_write list \<times> error option" where
  "save_images L h images0 save_path domain fps =
     (let save_type = after_last_dot save_path in
      case normalize_all h images0 domain of
        (h1, Inl e) \<Rightarrow> ([], Some e)
      | (h1, Inr images) \<Rightarrow>
          if save_type = ''npy'' then save_npy L h1 images save_path
          else if save_type = ''png'' then save_png L h1 images save_path
          else if save_type = ''mp4'' then numpy_image_to_video L h1 images fps save_path None
          else if save_type = ''gif'' then numpy_image_to_gif L h1 images save_path None
          else ([], Some (unsupported_save_type save_type)))"

subsection \<open>Notions used to state the properties of the image helpers\<close>

text \<open>
  A codec and file system for worked examples: the encoder returns the pixel values as
  the bytes of the image, and every write succeeds.
\<close>

definition example_lib :: lib where
  "example_lib =
     \<lparr>image_encode =
        (\<lambda>shp px fmt quality. Inr (map (\<lambda>x. case x of Fin v \<Rightarrow> nat \<lfloor>v\<rfloor> | _ \<Rightarrow> 0) px)),
      write_fails = (\<lambda>w. None)\<rparr>"

text \<open>The kind of a written file, named as \<^verbatim>\<open>save_images\<close> names the save types.\<close>

fun write_kind :: "file_write \<Rightarrow> string" where
  "write_kind (Npy name shp px) = ''npy''"
| "write_kind (Png name shp px) = ''png''"
| "write_kind (Mp4 name fps wh frames) = ''mp4''"
| "write_kind (Gif name frames) = ''gif''"

definition save_types :: "string set" where
  "save_types = {''npy'', ''png'', ''mp4'', ''gif''}"

section \<open>The two activation layers compute the same tensor\<close>

lemma RedirectedReluLayer_forward_eq_relu:
  "RedirectedReluLayer_forward t = ReluLayer_forward t"
  by (simp add: RedirectedReluLayer_forward_def RedirectedReLU_forward_def clamp_min_def
      ReluLayer_forward_def F_relu_def max_def not_less)

section \<open>Evaluating the module table and the statements\<close>

lemma last_binding_map_of:
  "last_binding xs k acc = (case map_of (rev xs) k of None \<Rightarrow> acc | Some v \<Rightarrow> Some v)"
  by (induction xs arbitrary: acc) (auto simp: map_add_def split: option.splits)

lemma map_of_rev_last_binding: "map_of (rev xs) k = last_binding xs k None"
  by (simp add: last_binding_map_of split: option.splits)

lemma last_binding_append:
  "last_binding (xs @ ys) k acc = last_binding ys k (last_binding xs k acc)"
  by (induction xs arbitrary: acc) auto

lemma last_binding_cong:
  "k = k' \<Longrightarrow> acc = acc' \<Longrightarrow> last_binding ps k acc = last_binding ps k' acc'"
  by simp

lemma list_eq_if: "(x # xs = y # ys) = (if x = y then xs = ys else False)"
  by simp

lemmas string_eq_simps =
  list_eq_if list.distinct char.inject simp_thms if_True if_False

lemma modules_stem:
  shows "modules r ''conv2d0_pre_relu_conv'' = Some (Conv2d 3 64 (7, 7) (2, 2) 1 True)"
    and "modules r ''conv2d1_pre_relu_conv'' = Some (Conv2d 64 64 (1, 1) (1, 1) 1 True)"
    and "modules r ''conv2d2_pre_relu_conv'' = Some (Conv2d 64 192 (3, 3) (1, 1) 1 True)"
    and "modules r ''softmax2_pre_activation_matmul'' = Some (Linear 1024 1008 True)"
    and "modules r ''conv2d0'' = Some (activation r)"
    and "modules r ''maxpool0'' = Some MaxPool2dLayer"
    and "modules r ''conv2d1'' = Some (activation r)"
    and "modules r ''conv2d2'' = Some (activation r)"
    and "modules r ''maxpool1'' = Some MaxPool2dLayer"
    and "modules r ''maxpool4'' = Some MaxPool2dLayer"
    and "modules r ''maxpool10'' = Some MaxPool2dLayer"
    and "modules r ''softmax2'' = Some SoftMaxLayer"
  unfolding modules_def map_of_rev_last_binding last_binding_append init_modules_def
    add_layers_def Let_def activation_def [symmetric]
  by (simp_all only: last_binding.simps string_eq_simps cong: last_binding_cong if_weak_cong)

lemma modules_mixed3a:
  shows "modules r ''mixed3a_1x1_pre_relu_conv'' = Some (Conv2d 192 64 (1, 1) (1, 1) 1 True)"
    and "modules r ''mixed3a_3x3_bottleneck_pre_relu_conv'' = Some (Conv2d 192 96 (1, 1) (1, 1) 1 True)"
    and "modules r ''mixed3a_5x5_bottleneck_pre_relu_conv'' = Some (Conv2d 192 16 (1, 1) (1, 1) 1 True)"
    and "modules r ''mixed3a_pool_reduce_pre_relu_conv'' = Some (Conv2d 192 32 (1, 1) (1, 1) 1 True)"
    and "modules r ''mixed3a_3x3_pre_relu_conv'' = Some (Conv2d 96 128 (3, 3) (1, 1) 1 True)"
    and "modules r ''mixed3a_5x5_pre_relu_conv'' = Some (Conv2d 16 32 (5, 5) (1, 1) 1 True)"
    and "modules r ''mixed3a_pool'' = Some MaxPool2dLayer"
    and "modules r ''mixed3a_1x1'' = Some (activation r)"
    and "modules r ''mixed3a_3x3_bottleneck'' = Some (activation r)"
    and "modules r ''mixed3a_5x5_bottleneck'' = Some (activation r)"
    and "modules r ''mixed3a_pool_reduce'' = Some (activation r)"
    and "modules r ''mixed3a_3x3'' = Some (activation r)"
    and "modules r ''mixed3a_5x5'' = Some (activation r)"
    and "modules r ''mixed3a'' = Some CatLayer"
  unfolding modules_def map_of_rev_last_binding last_binding_append init_modules_def
    add_layers_def Let_def activation_def [symmetric]
  by (simp_all only: last_binding.simps string_eq_simps cong: last_binding_cong if_weak_cong)

lemma modules_mixed3b:
  shows "modules r ''mixed3b_1x1_pre_relu_conv'' = Some (Conv2d 256 128 (1, 1) (1, 1) 1 True)"
    and "modules r ''mixed3b_3x3_bottleneck_pre_relu_conv'' = Some (Conv2d 256 128 (1, 1) (1, 1) 1 True)"
    and "modules r ''mixed3b_5x5_bottleneck_pre_relu_conv'' = Some (Conv2d 256 32 (1, 1) (1, 1) 1 True)"
    and "modules r ''mixed3b_pool_reduce_pre_relu_conv'' = Some (Conv2d 256 64 (1, 1) (1, 1) 1 True)"
    and "modules r ''mixed3b_3x3_pre_relu_conv'' = Some (Conv2d 128 192 (3, 3) (1, 1) 1 True)"
    and "modules r ''mixed3b_5x5_pre_relu_conv'' = Some (Conv2d 32 96 (5, 5) (1, 1) 1 True)"
    and "modules r ''mixed3b_pool'' = Some MaxPool2dLayer"
    and "modules r ''mixed3b_1x1'' = Some (activation r)"
    and "modules r ''mixed3b_3x3_bottleneck'' = Some (activation r)"
    and "modules r ''mixed3b_5x5_bottleneck'' = Some (activation r)"
    and "modules r ''mixed3b_pool_reduce'' = Some (activation r)"
    and "modules r ''mixed3b_3x3'' = Some (activation r)"
    and "modules r ''mixed3b_5x5'' = Some (activation r)"
    and "modules r ''mixed3b'' = Some CatLayer"
  unfolding modules_def map_of_rev_last_binding last_binding_append init_modules_def
    add_layers_def Let_def activation_def [symmetric]
  by (simp_all only: last_binding.simps string_eq_simps cong: last_binding_cong if_weak_cong)

lemma modules_mixed4a:
  shows "modules r ''mixed4a_1x1_pre_relu_conv'' = Some (Conv2d 480 192 (1, 1) (1, 1) 1 True)"
    and "modules r ''mixed4a_3x3_bottleneck_pre_relu_conv'' = Some (Conv2d 480 96 (1, 1) (1, 1) 1 True)"
    and "modules r ''mixed4a_5x5_bottleneck_pre_relu_conv'' = Some (Conv2d 480 16 (1, 1) (1, 1) 1 True)"
    and "modules r ''mixed4a_pool_reduce_pre_relu_conv'' = Some (Conv2d 480 64 (1, 1) (1, 1) 1 True)"
    and "modules r ''mixed4a_3x3_pre_relu_conv'' = Some (Conv2d 96 204 (3, 3) (1, 1) 1 True)"
    and "modules r ''mixed4a_5x5_pre_relu_conv'' = Some (Conv2d 16 48 (5, 5) (1, 1) 1 True)"
    and "modules r ''mixed4a_pool'' = Some MaxPool2dLayer"
    and "modules r ''mixed4a_1x1'' = Some (activation r)"
    and "modules r ''mixed4a_3x3_bottleneck'' = Some (activation r)"
    and "modules r ''mixed4a_5x5_bottleneck'' = Some (activation r)"
    and "modules r ''mixed4a_pool_reduce'' = Some (activation r)"
    and "modules r ''mixed4a_3x3'' = Some (activation r)"
    and "modules r ''mixed4a_5x5'' = Some (activation r)"
    and "modules r ''mixed4a'' = Some CatLayer"
  unfolding modules_def map_of_rev_last_binding last_binding_append init_modules_def
    add_layers_def Let_def activation_def [symmetric]
  by (simp_all only: last_binding.simps string_eq_simps cong: last_binding_cong if_weak_cong)

lemma modules_mixed4b:
  shows "modules r ''mixed4b_1x1_pre_relu_conv'' = Some (Conv2d 508 160 (1, 1) (1, 1) 1 True)"
    and "modules r ''mixed4b_3x3_bottleneck_pre_relu_conv'' = Some (Conv2d 508 112 (1, 1) (1, 1) 1 True)"
    and "modules r ''mixed4b_5x5_bottleneck_pre_relu_conv'' = Some (Conv2d 508 24 (1, 1) (1, 1) 1 True)"
    and "modules r ''mixed4b_pool_reduce_pre_relu_conv'' = Some (Conv2d 508 64 (1, 1) (1, 1) 1 True)"
    and "modules r ''mixed4b_3x3_pre_relu_conv'' = Some (Conv2d 112 224 (3, 3) (1, 1) 1 True)"
    and "modules r ''mixed4b_5x5_pre_relu_conv'' = Some (Conv2d 24 64 (5, 5) (1, 1) 1 True)"
    and "modules r ''mixed4b_pool'' = Some MaxPool2dLayer"
    and "modules r ''mixed4b_1x1'' = Some (activation r)"
    and "modules r ''mixed4b_3x3_bottleneck'' = Some (activation r)"
    and "modules r ''mixed4b_5x5_bottleneck'' = Some (activation r)"
    and "modules r ''mixed4b_pool_reduce'' = Some (activation r)"
    and "modules r ''mixed4b_3x3'' = Some (activation r)"
    and "modules r ''mixed4b_5x5'' = Some (activation r)"
    and "modules r ''mixed4b'' = Some CatLayer"
  unfolding modules_def map_of_rev_last_binding last_binding_append init_modules_def
    add_layers_def Let_def activation_def [symmetric]
  by (simp_all only: last_binding.simps string_eq_simps cong: last_binding_cong if_weak_cong)

lemma modules_mixed4c:
  shows "modules r ''mixed4c_1x1_pre_relu_conv'' = Some (Conv2d 512 128 (1, 1) (1, 1) 1 True)"
    and "modules r ''mixed4c_3x3_bottleneck_pre_relu_conv'' = Some (Conv2d 512 128 (1, 1) (1, 1) 1 True)"
    and "modules r ''mixed4c_5x5_bottleneck_pre_relu_conv'' = Some (Conv2d 512 24 (1, 1) (1, 1) 1 True)"
    and "modules r ''mixed4c_pool_reduce_pre_relu_conv'' = Some (Conv2d 512 64 (1, 1) (1, 1) 1 True)"
    and "modules r ''mixed4c_3x3_pre_relu_conv'' = Some (Conv2d 128 256 (3, 3) (1, 1) 1 True)"
    and "modules r ''mixed4c_5x5_pre_relu_conv'' = Some (Conv2d 24 64 (5, 5) (1, 1) 1 True)"
    and "modules r ''mixed4c_pool'' = Some MaxPool2dLayer"
    and "modules r ''mixed4c_1x1'' = Some (activation r)"
    and "modules r ''mixed4c_3x3_bottleneck'' = Some (activation r)"
    and "modules r ''mixed4c_5x5_bottleneck'' = Some (activation r)"
    and "modules r ''mixed4c_pool_reduce'' = Some (activation r)"
    and "modules r ''mixed4c_3x3'' = Some (activation r)"
    and "modules r ''mixed4c_5x5'' = Some (activation r)"
    and "modules r ''mixed4c'' = Some CatLayer"
  unfolding modules_def map_of_rev_last_binding last_binding_append init_modules_def
    add_layers_def Let_def activation_def [symmetric]
  by (simp_all only: last_binding.simps string_eq_simps cong: last_binding_cong if_weak_cong)

lemma modules_mixed4d:
  shows "modules r ''mixed4d_1x1_pre_relu_conv'' = Some (Conv2d 512 112 (1, 1) (1, 1) 1 True)"
    and "modules r ''mixed4d_3x3_bottleneck_pre_relu_conv'' = Some (Conv2d 512 144 (1, 1) (1, 1) 1 True)"
    and "modules r ''mixed4d_5x5_bottleneck_pre_relu_conv'' = Some (Conv2d 512 32 (1, 1) (1, 1) 1 True)"
    and "modules r ''mixed4d_pool_reduce_pre_relu_conv'' = Some (Conv2d 512 64 (1, 1) (1, 1) 1 True)"
    and "modules r ''mixed4d_3x3_pre_relu_conv'' = Some (Conv2d 144 288 (3, 3) (1, 1) 1 True)"
    and "modules r ''mixed4d_5x5_pre_relu_conv'' = Some (Conv2d 32 64 (5, 5) (1, 1) 1 True)"
    and "modules r ''mixed4d_pool'' = Some MaxPool2dLayer"
    and "modules r ''mixed4d_1x1'' = Some (activation r)"
    and "modules r ''mixed4d_3x3_bottleneck'' = Some (activation r)"
    and "modules r ''mixed4d_5x5_bottleneck'' = Some (activation r)"
    and "modules r ''mixed4d_pool_reduce'' = Some (activation r)"
    and "modules r ''mixed4d_3x3'' = Some (activation r)"
    and "modules r ''mixed4d_5x5'' = Some (activation r)"
    and "modules r ''mixed4d'' = Some CatLayer"
  unfolding modules_def map_of_rev_last_binding last_binding_append init_modules_def
    add_layers_def Let_def activation_def [symmetric]
  by (simp_all only: last_binding.simps string_eq_simps cong: last_binding_cong if_weak_cong)

lemma modules_mixed4e:
  shows "modules r ''mixed4e_1x1_pre_relu_conv'' = Some (Conv2d 528 256 (1, 1) (1, 1) 1 True)"
    and "modules r ''mixed4e_3x3_bottleneck_pre_relu_conv'' = Some (Conv2d 528 160 (1, 1) (1, 1) 1 True)"
    and "modules r ''mixed4e_5x5_bottleneck_pre_relu_conv'' = Some (Conv2d 528 32 (1, 1) (1, 1) 1 True)"
    and "modules r ''mixed4e_pool_reduce_pre_relu_conv'' = Some (Conv2d 528 128 (1, 1) (1, 1) 1 True)"
    and "modules r ''mixed4e_3x3_pre_relu_conv'' = Some (Conv2d 160 320 (3, 3) (1, 1) 1 True)"
    and "modules r ''mixed4e_5x5_pre_relu_conv'' = Some (Conv2d 32 128 (5, 5) (1, 1) 1 True)"
    and "modules r ''mixed4e_pool'' = Some MaxPool2dLayer"
    and "modules r ''mixed4e_1x1'' = Some (activation r)"
    and "modules r ''mixed4e_3x3_bottleneck'' = Some (activation r)"
    and "modules r ''mixed4e_5x5_bottleneck'' = Some (activation r)"
    and "modules r ''mixed4e_pool_reduce'' = Some (activation r)"
    and "modules r ''mixed4e_3x3'' = Some (activation r)"
    and "modules r ''mixed4e_5x5'' = Some (activation r)"
    and "modules r ''mixed4e'' = Some CatLayer"
  unfolding modules_def map_of_rev_last_binding last_binding_append init_modules_def
    add_layers_def Let_def activation_def [symmetric]
  by (simp_all only: last_binding.simps string_eq_simps cong: last_binding_cong if_weak_cong)

lemma modules_mixed5a:
  shows "modules r ''mixed5a_1x1_pre_relu_conv'' = Some (Conv2d 832 256 (1, 1) (1, 1) 1 True)"
    and "modules r ''mixed5a_3x3_bottleneck_pre_relu_conv'' = Some (Conv2d 832 160 (1, 1) (1, 1) 1 True)"
    and "modules r ''mixed5a_5x5_bottleneck_pre_relu_conv'' = Some (Conv2d 832 48 (1, 1) (1, 1) 1 True)"
    and "modules r ''mixed5a_pool_reduce_pre_relu_conv'' = Some (Conv2d 832 128 (1, 1) (1, 1) 1 True)"
    and "modules r ''mixed5a_3x3_pre_relu_conv'' = Some (Conv2d 160 320 (3, 3) (1, 1) 1 True)"
    and "modules r ''mixed5a_5x5_pre_relu_conv'' = Some (Conv2d 48 128 (5, 5) (1, 1) 1 True)"
    and "modules r ''mixed5a_pool'' = Some MaxPool2dLayer"
    and "modules r ''mixed5a_1x1'' = Some (activation r)"
    and "modules r ''mixed5a_3x3_bottleneck'' = Some (activation r)"
    and "modules r ''mixed5a_5x5_bottleneck'' = Some (activation r)"
    and "modules r ''mixed5a_pool_reduce'' = Some (activation r)"
    and "modules r ''mixed5a_3x3'' = Some (activation r)"
    and "modules r ''mixed5a_5x5'' = Some (activation r)"
    and "modules r ''mixed5a'' = Some CatLayer"
  unfolding modules_def map_of_rev_last_binding last_binding_append init_modules_def
    add_layers_def Let_def activation_def [symmetric]
  by (simp_all only: last_binding.simps string_eq_simps cong: last_binding_cong if_weak_cong)

lemma modules_mixed5b:
  shows "modules r ''mixed5b_1x1_pre_relu_conv'' = Some (Conv2d 832 384 (1, 1) (1, 1) 1 True)"
    and "modules r ''mixed5b_3x3_bottleneck_pre_relu_conv'' = Some (Conv2d 832 192 (1, 1) (1, 1) 1 True)"
    and "modules r ''mixed5b_5x5_bottleneck_pre_relu_conv'' = Some (Conv2d 832 48 (1, 1) (1, 1) 1 True)"
    and "modules r ''mixed5b_pool_reduce_pre_relu_conv'' = Some (Conv2d 832 128 (1, 1) (1, 1) 1 True)"
    and "modules r ''mixed5b_3x3_pre_relu_conv'' = Some (Conv2d 192 384 (3, 3) (1, 1) 1 True)"
    and "modules r ''mixed5b_5x5_pre_relu_conv'' = Some (Conv2d 48 128 (5, 5) (1, 1) 1 True)"
    and "modules r ''mixed5b_pool'' = Some MaxPool2dLayer"
    and "modules r ''mixed5b_1x1'' = Some (activation r)"
    and "modules r ''mixed5b_3x3_bottleneck'' = Some (activation r)"
    and "modules r ''mixed5b_5x5_bottleneck'' = Some (activation r)"
    and "modules r ''mixed5b_pool_reduce'' = Some (activation r)"
    and "modules r ''mixed5b_3x3'' = Some (activation r)"
    and "modules r ''mixed5b_5x5'' = Some (activation r)"
    and "modules r ''mixed5b'' = Some CatLayer"
  unfolding modules_def map_of_rev_last_binding last_binding_append init_modules_def
    add_layers_def Let_def activation_def [symmetric]
  by (simp_all only: last_binding.simps string_eq_simps cong: last_binding_cong if_weak_cong)

section \<open>The structure of the forward pass\<close>

lemma exec_cong: "env = env' \<Longrightarrow> exec f mods ss env = exec f mods ss env'"
  by simp

lemma fun_upd_cong: "b = b' \<Longrightarrow> env(a := b) = env(a := b')"
  by simp

lemmas modules_lookup =
  modules_stem modules_mixed3a modules_mixed3b modules_mixed4a modules_mixed4b modules_mixed4c
  modules_mixed4d modules_mixed4e modules_mixed5a modules_mixed5b

lemma cat_targets_append: "cat_targets (xs @ ys) = cat_targets xs @ cat_targets ys"
  by (simp add: cat_targets_def)

lemma block_ok_mixed3a: "block_ok r (''mixed3a'', ''maxpool1'', forward_mixed3a)"
  unfolding block_ok_def expr_of_def forward_mixed3a_def prod.case
  by (simp add: modules_mixed3a lookup_var_def sym_ops_def is_input_def
        cong: exec_cong fun_upd_cong)

lemma block_ok_mixed3b: "block_ok r (''mixed3b'', ''mixed3a'', forward_mixed3b)"
  unfolding block_ok_def expr_of_def forward_mixed3b_def prod.case
  by (simp add: modules_mixed3b lookup_var_def sym_ops_def is_input_def
        cong: exec_cong fun_upd_cong)

lemma block_ok_mixed4a: "block_ok r (''mixed4a'', ''maxpool4'', forward_mixed4a)"
  unfolding block_ok_def expr_of_def forward_mixed4a_def prod.case
  by (simp add: modules_mixed4a lookup_var_def sym_ops_def is_input_def
        cong: exec_cong fun_upd_cong)

lemma block_ok_mixed4b: "block_ok r (''mixed4b'', ''mixed4a'', forward_mixed4b)"
  unfolding block_ok_def expr_of_def forward_mixed4b_def prod.case
  by (simp add: modules_mixed4b lookup_var_def sym_ops_def is_input_def
        cong: exec_cong fun_upd_cong)

lemma block_ok_mixed4c: "block_ok r (''mixed4c'', ''mixed4b'', forward_mixed4c)"
  unfolding block_ok_def expr_of_def forward_mixed4c_def prod.case
  by (simp add: modules_mixed4c lookup_var_def sym_ops_def is_input_def
        cong: exec_cong fun_upd_cong)

lemma block_ok_mixed4d: "block_ok r (''mixed4d'', ''mixed4c'', forward_mixed4d)"
  unfolding block_ok_def expr_of_def forward_mixed4d_def prod.case
  by (simp add: modules_mixed4d lookup_var_def sym_ops_def is_input_def
        cong: exec_cong fun_upd_cong)

lemma block_ok_mixed4e: "block_ok r (''mixed4e'', ''mixed4d'', forward_mixed4e)"
  unfolding block_ok_def expr_of_def forward_mixed4e_def prod.case
  by (simp add: modules_mixed4e lookup_var_def sym_ops_def is_input_def
        cong: exec_cong fun_upd_cong)

lemma block_ok_mixed5a: "block_ok r (''mixed5a'', ''maxpool10'', forward_mixed5a)"
  unfolding block_ok_def expr_of_def forward_mixed5a_def prod.case
  by (simp add: modules_mixed5a lookup_var_def sym_ops_def is_input_def
        cong: exec_cong fun_upd_cong)

lemma block_ok_mixed5b: "block_ok r (''mixed5b'', ''mixed5a'', forward_mixed5b)"
  unfolding block_ok_def expr_of_def forward_mixed5b_def prod.case
  by (simp add: modules_mixed5b lookup_var_def sym_ops_def is_input_def
        cong: exec_cong fun_upd_cong)

lemma cat_targets_stem: "cat_targets forward_stem = []"
  by (simp add: cat_targets_def forward_stem_def)

lemma cat_targets_mixed3a: "cat_targets forward_mixed3a = [''mixed3a'']"
  by (simp add: cat_targets_def forward_mixed3a_def)

lemma cat_targets_mixed3b: "cat_targets forward_mixed3b = [''mixed3b'']"
  by (simp add: cat_targets_def forward_mixed3b_def)

lemma cat_targets_maxpool4: "cat_targets forward_maxpool4 = []"
  by (simp add: cat_targets_def forward_maxpool4_def)

lemma cat_targets_mixed4a: "cat_targets forward_mixed4a = [''mixed4a'']"
  by (simp add: cat_targets_def forward_mixed4a_def)

lemma cat_targets_mixed4b: "cat_targets forward_mixed4b = [''mixed4b'']"
  by (simp add: cat_targets_def forward_mixed4b_def)

lemma cat_targets_mixed4c: "cat_targets forward_mixed4c = [''mixed4c'']"
  by (simp add: cat_targets_def forward_mixed4c_def)

lemma cat_targets_mixed4d: "cat_targets forward_mixed4d = [''mixed4d'']"
  by (simp add: cat_targets_def forward_mixed4d_def)

lemma cat_targets_mixed4e: "cat_targets forward_mixed4e = [''mixed4e'']"
  by (simp add: cat_targets_def forward_mixed4e_def)

lemma cat_targets_maxpool10: "cat_targets forward_maxpool10 = []"
  by (simp add: cat_targets_def forward_maxpool10_def)

lemma cat_targets_mixed5a: "cat_targets forward_mixed5a = [''mixed5a'']"
  by (simp add: cat_targets_def forward_mixed5a_def)

lemma cat_targets_mixed5b: "cat_targets forward_mixed5b = [''mixed5b'']"
  by (simp add: cat_targets_def forward_mixed5b_def)

lemma cat_targets_head: "cat_targets forward_head = []"
  by (simp add: cat_targets_def forward_head_def)

lemma cat_targets_forward_body:
  "cat_targets forward_body =
     [''mixed3a'', ''mixed3b'', ''mixed4a'', ''mixed4b'', ''mixed4c'', ''mixed4d'', ''mixed4e'', ''mixed5a'', ''mixed5b'']"
  unfolding forward_body_def cat_targets_append
  by (simp only: cat_targets_stem cat_targets_mixed3a cat_targets_mixed3b cat_targets_maxpool4 cat_targets_mixed4a cat_targets_mixed4b cat_targets_mixed4c cat_targets_mixed4d cat_targets_mixed4e cat_targets_maxpool10 cat_targets_mixed5a cat_targets_mixed5b cat_targets_head append.simps)

lemma block_forward_ok_mixed3a:
  "block_forward_ok K sd r (''mixed3a'', ''maxpool1'', forward_mixed3a) x"
  unfolding block_forward_ok_def forward_mixed3a_def prod.case
  by (simp add: modules_mixed3a lookup_var_def tensor_ops_def total_torch_def conv_of_def
        activation_def RedirectedReluLayer_forward_eq_relu ReluLayer_forward_def
        cong: exec_cong fun_upd_cong)

lemma block_forward_ok_mixed3b:
  "block_forward_ok K sd r (''mixed3b'', ''mixed3a'', forward_mixed3b) x"
  unfolding block_forward_ok_def forward_mixed3b_def prod.case
  by (simp add: modules_mixed3b lookup_var_def tensor_ops_def total_torch_def conv_of_def
        activation_def RedirectedReluLayer_forward_eq_relu ReluLayer_forward_def
        cong: exec_cong fun_upd_cong)

lemma block_forward_ok_mixed4a:
  "block_forward_ok K sd r (''mixed4a'', ''maxpool4'', forward_mixed4a) x"
  unfolding block_forward_ok_def forward_mixed4a_def prod.case
  by (simp add: modules_mixed4a lookup_var_def tensor_ops_def total_torch_def conv_of_def
        activation_def RedirectedReluLayer_forward_eq_relu ReluLayer_forward_def
        cong: exec_cong fun_upd_cong)

lemma block_forward_ok_mixed4b:
  "block_forward_ok K sd r (''mixed4b'', ''mixed4a'', forward_mixed4b) x"
  unfolding block_forward_ok_def forward_mixed4b_def prod.case
  by (simp add: modules_mixed4b lookup_var_def tensor_ops_def total_torch_def conv_of_def
        activation_def RedirectedReluLayer_forward_eq_relu ReluLayer_forward_def
        cong: exec_cong fun_upd_cong)

lemma block_forward_ok_mixed4c:
  "block_forward_ok K sd r (''mixed4c'', ''mixed4b'', forward_mixed4c) x"
  unfolding block_forward_ok_def forward_mixed4c_def prod.case
  by (simp add: modules_mixed4c lookup_var_def tensor_ops_def total_torch_def conv_of_def
        activation_def RedirectedReluLayer_forward_eq_relu ReluLayer_forward_def
        cong: exec_cong fun_upd_cong)

lemma block_forward_ok_mixed4d:
  "block_forward_ok K sd r (''mixed4d'', ''mixed4c'', forward_mixed4d) x"
  unfolding block_forward_ok_def forward_mixed4d_def prod.case
  by (simp add: modules_mixed4d lookup_var_def tensor_ops_def total_torch_def conv_of_def
        activation_def RedirectedReluLayer_forward_eq_relu ReluLayer_forward_def
        cong: exec_cong fun_upd_cong)

lemma block_forward_ok_mixed4e:
  "block_forward_ok K sd r (''mixed4e'', ''mixed4d'', forward_mixed4e) x"
  unfolding block_forward_ok_def forward_mixed4e_def prod.case
  by (simp add: modules_mixed4e lookup_var_def tensor_ops_def total_torch_def conv_of_def
        activation_def RedirectedReluLayer_forward_eq_relu ReluLayer_forward_def
        cong: exec_cong fun_upd_cong)

lemma block_forward_ok_mixed5a:
  "block_forward_ok K sd r (''mixed5a'', ''maxpool10'', forward_mixed5a) x"
  unfolding block_forward_ok_def forward_mixed5a_def prod.case
  by (simp add: modules_mixed5a lookup_var_def tensor_ops_def total_torch_def conv_of_def
        activation_def RedirectedReluLayer_forward_eq_relu ReluLayer_forward_def
        cong: exec_cong fun_upd_cong)

lemma block_forward_ok_mixed5b:
  "block_forward_ok K sd r (''mixed5b'', ''mixed5a'', forward_mixed5b) x"
  unfolding block_forward_ok_def forward_mixed5b_def prod.case
  by (simp add: modules_mixed5b lookup_var_def tensor_ops_def total_torch_def conv_of_def
        activation_def RedirectedReluLayer_forward_eq_relu ReluLayer_forward_def
        cong: exec_cong fun_upd_cong)

text \<open>
  Claim C1. The statements of the forward pass that concatenate are exactly nine, with
  targets mixed3a, mixed3b, mixed4a, mixed4b, mixed4c, mixed4d, mixed4e, mixed5a and
  mixed5b in this order; the forward pass is the stem, these nine blocks with the two
  max-pools between them, and the head; in each block the concatenated value is a
  \<^verbatim>\<open>CatLayer\<close> along dimension 1 of four branches on the block's input: a 1x1
  convolution, a 1x1 bottleneck and a 3x3 convolution, a 1x1 bottleneck and a 5x5
  convolution, a max-pool and a 1x1 convolution, every convolution followed by the
  model's activation; and on tensors each block returns the framework's concatenation
  along dimension 1 of these four branches, computed by the declared convolutions, the
  ReLU, the padding and the max-pool. This holds for both activations, every framework
  whose kernels return, every state dictionary and every input.
\<close>

theorem InceptionV1_nine_mixed_blocks:
  "cat_targets forward_body =
     [''mixed3a'', ''mixed3b'', ''mixed4a'', ''mixed4b'', ''mixed4c'', ''mixed4d'',
      ''mixed4e'', ''mixed5a'', ''mixed5b'']
   \<and> map fst mixed_blocks = cat_targets forward_body
   \<and> forward_body =
       forward_stem @ concat (map (\<lambda>blk. snd (snd blk)) (take 2 mixed_blocks))
       @ forward_maxpool4 @ concat (map (\<lambda>blk. snd (snd blk)) (take 5 (drop 2 mixed_blocks)))
       @ forward_maxpool10 @ concat (map (\<lambda>blk. snd (snd blk)) (drop 7 mixed_blocks))
       @ forward_head
   \<and> list_all (block_ok r) mixed_blocks
   \<and> list_all (\<lambda>blk. block_forward_ok K sd r blk x) mixed_blocks"
proof -
  have "map fst mixed_blocks = cat_targets forward_body"
    unfolding cat_targets_forward_body by (simp add: mixed_blocks_def)
  moreover have "forward_body =
       forward_stem @ concat (map (\<lambda>blk. snd (snd blk)) (take 2 mixed_blocks))
       @ forward_maxpool4 @ concat (map (\<lambda>blk. snd (snd blk)) (take 5 (drop 2 mixed_blocks)))
       @ forward_maxpool10 @ concat (map (\<lambda>blk. snd (snd blk)) (drop 7 mixed_blocks))
       @ forward_head"
    by (simp add: forward_body_def mixed_blocks_def)
  moreover have "list_all (block_ok r) mixed_blocks"
    unfolding mixed_blocks_def
    by (simp add: block_ok_mixed3a block_ok_mixed3b block_ok_mixed4a
        block_ok_mixed4b block_ok_mixed4c block_ok_mixed4d block_ok_mixed4e block_ok_mixed5a
        block_ok_mixed5b)
  moreover have "list_all (\<lambda>blk. block_forward_ok K sd r blk x) mixed_blocks"
    unfolding mixed_blocks_def
    by (simp add: block_forward_ok_mixed3a block_forward_ok_mixed3b block_forward_ok_mixed4a
        block_forward_ok_mixed4b block_forward_ok_mixed4c block_forward_ok_mixed4d
        block_forward_ok_mixed4e block_forward_ok_mixed5a block_forward_ok_mixed5b)
  ultimately show ?thesis
    using cat_targets_forward_body by simp
qed

section \<open>Channel consistency\<close>

lemma block_out_channels_mixed3a: "block_out_channels r ''mixed3a'' = Some 256"
  by (simp add: block_out_channels_def branch_channels_def modules_mixed3a)

lemma block_channels_ok_mixed3a:
  "block_channels_ok r (''mixed3a'', ''maxpool1'', forward_mixed3a) (192, 256)"
  unfolding block_channels_ok_def weighted_inputs_def forward_mixed3a_def prod.case
    block_out_channels_mixed3a
  by (simp add: modules_mixed3a lookup_var_def channel_ops_def activation_def
        cong: exec_cong fun_upd_cong)

lemma block_out_channels_mixed3b: "block_out_channels r ''mixed3b'' = Some 480"
  by (simp add: block_out_channels_def branch_channels_def modules_mixed3b)

lemma block_channels_ok_mixed3b:
  "block_channels_ok r (''mixed3b'', ''mixed3a'', forward_mixed3b) (256, 480)"
  unfolding block_channels_ok_def weighted_inputs_def forward_mixed3b_def prod.case
    block_out_channels_mixed3b
  by (simp add: modules_mixed3b lookup_var_def channel_ops_def activation_def
        cong: exec_cong fun_upd_cong)

lemma block_out_channels_mixed4a: "block_out_channels r ''mixed4a'' = Some 508"
  by (simp add: block_out_channels_def branch_channels_def modules_mixed4a)

lemma block_channels_ok_mixed4a:
  "block_channels_ok r (''mixed4a'', ''maxpool4'', forward_mixed4a) (480, 508)"
  unfolding block_channels_ok_def weighted_inputs_def forward_mixed4a_def prod.case
    block_out_channels_mixed4a
  by (simp add: modules_mixed4a lookup_var_def channel_ops_def activation_def
        cong: exec_cong fun_upd_cong)

lemma block_out_channels_mixed4b: "block_out_channels r ''mixed4b'' = Some 512"
  by (simp add: block_out_channels_def branch_channels_def modules_mixed4b)

lemma block_channels_ok_mixed4b:
  "block_channels_ok r (''mixed4b'', ''mixed4a'', forward_mixed4b) (508, 512)"
  unfolding block_channels_ok_def weighted_inputs_def forward_mixed4b_def prod.case
    block_out_channels_mixed4b
  by (simp add: modules_mixed4b lookup_var_def channel_ops_def activation_def
        cong: exec_cong fun_upd_cong)

lemma block_out_channels_mixed4c: "block_out_channels r ''mixed4c'' = Some 512"
  by (simp add: block_out_channels_def branch_channels_def modules_mixed4c)

lemma block_channels_ok_mixed4c:
  "block_channels_ok r (''mixed4c'', ''mixed4b'', forward_mixed4c) (512, 512)"
  unfolding block_channels_ok_def weighted_inputs_def forward_mixed4c_def prod.case
    block_out_channels_mixed4c
  by (simp add: modules_mixed4c lookup_var_def channel_ops_def activation_def
        cong: exec_cong fun_upd_cong)

lemma block_out_channels_mixed4d: "block_out_channels r ''mixed4d'' = Some 528"
  by (simp add: block_out_channels_def branch_channels_def modules_mixed4d)

lemma block_channels_ok_mixed4d:
  "block_channels_ok r (''mixed4d'', ''mixed4c'', forward_mixed4d) (512, 528)"
  unfolding block_channels_ok_def weighted_inputs_def forward_mixed4d_def prod.case
    block_out_channels_mixed4d
  by (simp add: modules_mixed4d lookup_var_def channel_ops_def activation_def
        cong: exec_cong fun_upd_cong)

lemma block_out_channels_mixed4e: "block_out_channels r ''mixed4e'' = Some 832"
  by (simp add: block_out_channels_def branch_channels_def modules_mixed4e)

lemma block_channels_ok_mixed4e:
  "block_channels_ok r (''mixed4e'', ''mixed4d'', forward_mixed4e) (528, 832)"
  unfolding block_channels_ok_def weighted_inputs_def forward_mixed4e_def prod.case
    block_out_channels_mixed4e
  by (simp add: modules_mixed4e lookup_var_def channel_ops_def activation_def
        cong: exec_cong fun_upd_cong)

lemma block_out_channels_mixed5a: "block_out_channels r ''mixed5a'' = Some 832"
  by (simp add: block_out_channels_def branch_channels_def modules_mixed5a)

lemma block_channels_ok_mixed5a:
  "block_channels_ok r (''mixed5a'', ''maxpool10'', forward_mixed5a) (832, 832)"
  unfolding block_channels_ok_def weighted_inputs_def forward_mixed5a_def prod.case
    block_out_channels_mixed5a
  by (simp add: modules_mixed5a lookup_var_def channel_ops_def activation_def
        cong: exec_cong fun_upd_cong)

lemma block_out_channels_mixed5b: "block_out_channels r ''mixed5b'' = Some 1024"
  by (simp add: block_out_channels_def branch_channels_def modules_mixed5b)

lemma block_channels_ok_mixed5b:
  "block_channels_ok r (''mixed5b'', ''mixed5a'', forward_mixed5b) (832, 1024)"
  unfolding block_channels_ok_def weighted_inputs_def forward_mixed5b_def prod.case
    block_out_channels_mixed5b
  by (simp add: modules_mixed5b lookup_var_def channel_ops_def activation_def
        cong: exec_cong fun_upd_cong)

lemma forward_body_channels:
  "\<exists>env. exec channel_ops (modules r) forward_body (Map.empty(''x'' \<mapsto> 3)) = Inr env
     \<and> map env [''mixed3a'', ''mixed3b'', ''mixed4a'', ''mixed4b'', ''mixed4c'', ''mixed4d'',
                 ''mixed4e'', ''mixed5a'', ''mixed5b'']
         = map Some [256, 480, 508, 512, 512, 528, 832, 832, 1024]
     \<and> env ''avgpool0_reshape'' = Some 1024
     \<and> env ''softmax2'' = Some 1008"
  unfolding forward_body_def forward_stem_def forward_mixed3a_def forward_mixed3b_def
    forward_maxpool4_def forward_mixed4a_def forward_mixed4b_def forward_mixed4c_def
    forward_mixed4d_def forward_mixed4e_def forward_maxpool10_def forward_mixed5a_def
    forward_mixed5b_def forward_head_def append.simps
  by (simp add: modules_lookup lookup_var_def channel_ops_def activation_def
        cong: exec_cong fun_upd_cong)

text \<open>
  Claim C4. Each of the nine blocks is channel-consistent: from an input with the channel
  count the preceding block (or the max-pool after it) delivers, its statements run
  without a mismatch, every convolution in the block, those that read the block's input
  directly or through the padded max-pool included, reads as many channels as its
  \<^verbatim>\<open>in_channels\<close> declares, and the concatenated output has the sum of the four
  branch \<^verbatim>\<open>out_channels\<close>: 256, 480, 508, 512, 512, 528, 832, 832 and 1024. The whole
  forward pass on a three-channel input runs without a mismatch and gives exactly these
  counts, and the 1024 channels of mixed5b are the \<^verbatim>\<open>in_features\<close> of
  \<^verbatim>\<open>softmax2_pre_activation_matmul\<close>.
\<close>

theorem InceptionV1_channels_consistent:
  "list_all2 (block_channels_ok r) mixed_blocks
     [(192, 256), (256, 480), (480, 508), (508, 512), (512, 512), (512, 528), (528, 832),
      (832, 832), (832, 1024)]
   \<and> (\<exists>env. exec channel_ops (modules r) forward_body (Map.empty(''x'' \<mapsto> 3)) = Inr env
         \<and> map env [''mixed3a'', ''mixed3b'', ''mixed4a'', ''mixed4b'', ''mixed4c'',
                     ''mixed4d'', ''mixed4e'', ''mixed5a'', ''mixed5b'']
             = map Some [256, 480, 508, 512, 512, 528, 832, 832, 1024]
         \<and> env ''avgpool0_reshape'' = Some 1024
         \<and> env ''softmax2'' = Some 1008)
   \<and> declared_in (modules r ''softmax2_pre_activation_matmul'') = Some 1024"
proof -
  have "list_all2 (block_channels_ok r) mixed_blocks
     [(192, 256), (256, 480), (480, 508), (508, 512), (512, 512), (512, 528), (528, 832),
      (832, 832), (832, 1024)]"
    unfolding mixed_blocks_def
    by (simp add: block_channels_ok_mixed3a block_channels_ok_mixed3b
        block_channels_ok_mixed4a block_channels_ok_mixed4b block_channels_ok_mixed4c
        block_channels_ok_mixed4d block_channels_ok_mixed4e block_channels_ok_mixed5a
        block_channels_ok_mixed5b)
  moreover have "declared_in (modules r ''softmax2_pre_activation_matmul'') = Some 1024"
    by (simp add: modules_stem)
  ultimately show ?thesis
    using forward_body_channels [of r] by blast
qed

section \<open>Local-response normalization\<close>

lemma lrn_calls_append: "lrn_calls (xs @ ys) = lrn_calls xs @ lrn_calls ys"
  by (simp add: lrn_calls_def)

lemma pool_targets_append: "pool_targets (xs @ ys) = pool_targets xs @ pool_targets ys"
  by (simp add: pool_targets_def)

lemma lrn_calls_stem:
  "lrn_calls forward_stem =
     [(''localresponsenorm0'',
       F_local_response_norm ''maxpool0'' 9 (999999974738 / 10000000000000000) (5 / 10) 1),
      (''localresponsenorm1'',
       F_local_response_norm ''conv2d2'' 9 (999999974738 / 10000000000000000) (5 / 10) 1)]"
  by (simp add: lrn_calls_def forward_stem_def)

lemma pool_targets_stem: "pool_targets forward_stem = [''maxpool0'', ''maxpool1'']"
  by (simp add: pool_targets_def forward_stem_def)

lemma lrn_calls_mixed3a: "lrn_calls forward_mixed3a = []"
  by (simp add: lrn_calls_def forward_mixed3a_def)

lemma lrn_calls_mixed3b: "lrn_calls forward_mixed3b = []"
  by (simp add: lrn_calls_def forward_mixed3b_def)

lemma lrn_calls_maxpool4: "lrn_calls forward_maxpool4 = []"
  by (simp add: lrn_calls_def forward_maxpool4_def)

lemma lrn_calls_mixed4a: "lrn_calls forward_mixed4a = []"
  by (simp add: lrn_calls_def forward_mixed4a_def)

lemma lrn_calls_mixed4b: "lrn_calls forward_mixed4b = []"
  by (simp add: lrn_calls_def forward_mixed4b_def)

lemma lrn_calls_mixed4c: "lrn_calls forward_mixed4c = []"
  by (simp add: lrn_calls_def forward_mixed4c_def)

lemma lrn_calls_mixed4d: "lrn_calls forward_mixed4d = []"
  by (simp add: lrn_calls_def forward_mixed4d_def)

lemma lrn_calls_mixed4e: "lrn_calls forward_mixed4e = []"
  by (simp add: lrn_calls_def forward_mixed4e_def)

lemma lrn_calls_maxpool10: "lrn_calls forward_maxpool10 = []"
  by (simp add: lrn_calls_def forward_maxpool10_def)

lemma lrn_calls_mixed5a: "lrn_calls forward_mixed5a = []"
  by (simp add: lrn_calls_def forward_mixed5a_def)

lemma lrn_calls_mixed5b: "lrn_calls forward_mixed5b = []"
  by (simp add: lrn_calls_def forward_mixed5b_def)

lemma lrn_calls_head: "lrn_calls forward_head = []"
  by (simp add: lrn_calls_def forward_head_def)

lemma lrn_calls_forward_body: "lrn_calls forward_body = lrn_calls forward_stem"
  unfolding forward_body_def lrn_calls_append
  by (simp only: lrn_calls_mixed3a lrn_calls_mixed3b lrn_calls_maxpool4 lrn_calls_mixed4a lrn_calls_mixed4b lrn_calls_mixed4c lrn_calls_mixed4d lrn_calls_mixed4e lrn_calls_maxpool10 lrn_calls_mixed5a lrn_calls_mixed5b lrn_calls_head append_Nil2)

lemma no_local_response_norm_layer:
  "LocalResponseNormLayer \<notin> set (map snd (init_modules @ add_layers r))"
  by (simp add: init_modules_def add_layers_def)

lemma stem_exprs:
  shows "\<exists>a. expr_of (modules r) forward_stem ''x'' ''maxpool0''
              = Some (SModule ''maxpool0'' MaxPool2dLayer a)"
    and "\<exists>e. expr_of (modules r) forward_stem ''x'' ''conv2d2''
              = Some (SModule ''conv2d2'' (activation r)
                  (Arg1 (SModule ''conv2d2_pre_relu_conv''
                    (Conv2d 64 192 (3, 3) (1, 1) 1 True) (Arg1 e))))"
    and "expr_of (modules r) forward_stem ''x'' ''localresponsenorm0''
           = map_option (\<lambda>e. SLocalResponseNorm e 9 (999999974738 / 10000000000000000) (5 / 10) 1)
               (expr_of (modules r) forward_stem ''x'' ''maxpool0'')"
    and "expr_of (modules r) forward_stem ''x'' ''localresponsenorm1''
           = map_option (\<lambda>e. SLocalResponseNorm e 9 (999999974738 / 10000000000000000) (5 / 10) 1)
               (expr_of (modules r) forward_stem ''x'' ''conv2d2'')"
  unfolding expr_of_def forward_stem_def
  by (simp_all add: modules_stem lookup_var_def sym_ops_def cong: exec_cong fun_upd_cong)

text \<open>
  Claim C5. Exactly two statements of the forward pass apply local-response
  normalization, both with size 9, alpha 9.99999974738e-05, beta 0.5 and k 1: the first
  to the variable \<^verbatim>\<open>maxpool0\<close>, the output of the first max-pool of the forward pass,
  the second to the variable \<^verbatim>\<open>conv2d2\<close>, the activation of the convolution
  \<^verbatim>\<open>conv2d2_pre_relu_conv\<close>. No attribute of the model is bound to a
  \<^verbatim>\<open>LocalResponseNormLayer\<close>, so no module call normalizes either.
\<close>

theorem InceptionV1_local_response_norm_twice:
  "lrn_calls forward_body =
     [(''localresponsenorm0'',
       F_local_response_norm ''maxpool0'' 9 (999999974738 / 10000000000000000) (5 / 10) 1),
      (''localresponsenorm1'',
       F_local_response_norm ''conv2d2'' 9 (999999974738 / 10000000000000000) (5 / 10) 1)]
   \<and> take 1 (pool_targets forward_body) = [''maxpool0'']
   \<and> (\<exists>a. expr_of (modules r) forward_stem ''x'' ''maxpool0''
              = Some (SModule ''maxpool0'' MaxPool2dLayer a))
   \<and> (\<exists>e. expr_of (modules r) forward_stem ''x'' ''conv2d2''
              = Some (SModule ''conv2d2'' (activation r)
                  (Arg1 (SModule ''conv2d2_pre_relu_conv''
                    (Conv2d 64 192 (3, 3) (1, 1) 1 True) (Arg1 e)))))
   \<and> expr_of (modules r) forward_stem ''x'' ''localresponsenorm0''
       = map_option (\<lambda>e. SLocalResponseNorm e 9 (999999974738 / 10000000000000000) (5 / 10) 1)
           (expr_of (modules r) forward_stem ''x'' ''maxpool0'')
   \<and> expr_of (modules r) forward_stem ''x'' ''localresponsenorm1''
       = map_option (\<lambda>e. SLocalResponseNorm e 9 (999999974738 / 10000000000000000) (5 / 10) 1)
           (expr_of (modules r) forward_stem ''x'' ''conv2d2'')
   \<and> LocalResponseNormLayer \<notin> set (map snd (init_modules @ add_layers r))"
proof -
  have "take 1 (pool_targets forward_body) = [''maxpool0'']"
    unfolding forward_body_def pool_targets_append pool_targets_stem by simp
  then show ?thesis
    using stem_exprs [of r] no_local_response_norm_layer [of r]
    by (simp only: lrn_calls_forward_body lrn_calls_stem simp_thms)
qed

section \<open>Properties of the redirected activation\<close>

lemma module_forward_unredirect:
  "module_forward T sd name (unredirect m) a = module_forward T sd name m a"
  by (cases m; cases a) (simp_all add: unredirect_def RedirectedReluLayer_forward_eq_relu)

lemma init_modules_unredirect:
  "map (\<lambda>(k, m). (k, unredirect m)) init_modules = init_modules"
  by (simp add: init_modules_def unredirect_def)

lemma add_layers_unredirect:
  "map (\<lambda>(k, m). (k, unredirect m)) (add_layers True) = add_layers False"
  by (simp add: add_layers_def unredirect_def)

lemma modules_unredirect:
  "modules False name = map_option unredirect (modules True name)"
proof -
  have eq: "rev (init_modules @ add_layers False)
        = map (\<lambda>(k, m). (k, unredirect m)) (rev (init_modules @ add_layers True))"
    by (simp only: rev_map [symmetric] map_append init_modules_unredirect add_layers_unredirect)
  show ?thesis
    unfolding modules_def eq map_of_map by (simp only: o_apply)
qed

lemma eval_call_unredirect:
  "eval_call (tensor_ops T sd) (modules False) env c
   = eval_call (tensor_ops T sd) (modules True) env c"
  by (cases c)
     (auto simp: modules_unredirect tensor_ops_def module_forward_unredirect
           split: option.splits sum.splits)

lemma exec_unredirect:
  "exec (tensor_ops T sd) (modules False) ss env
   = exec (tensor_ops T sd) (modules True) ss env"
  by (induction ss arbitrary: env) (auto simp: eval_call_unredirect split: sum.splits)

text \<open>
  Claim C2. The redirected activation changes the backward pass only: the output of
  \<^verbatim>\<open>RedirectedReLU.forward\<close> is the input clamped below at zero, which is the
  standard ReLU of the input, element for element; and for every framework, every state
  dictionary and every input, the forward pass of the network built with
  \<^verbatim>\<open>redirected_ReLU=True\<close> returns what the network built with
  \<^verbatim>\<open>redirected_ReLU=False\<close> returns, errors included.
\<close>

theorem InceptionV1_forward_redirected_irrelevant:
  "snd (RedirectedReLU_forward c x) = clamp_min x 0
   \<and> snd (RedirectedReLU_forward c x) = F_relu x
   \<and> InceptionV1_forward T sd True x = InceptionV1_forward T sd False x"
  by (simp add: InceptionV1_forward_def run_forward_def exec_unredirect
      RedirectedReLU_forward_def clamp_min_def F_relu_def max_def not_less)

text \<open>
  Claim C3, as stated, fails at an input element equal to zero: the derivative of the
  standard ReLU is zero there, so the element lies in the zero-gradient region, yet the
  mask \<^verbatim>\<open>input_tensor < 0\<close> does not select it and the gradient passes unchanged
  instead of being multiplied by one tenth.
\<close>

theorem RedirectedReLU_backward_at_zero_counterexample:
  "zero_gradient_region \<lparr>shape = [1], data = [0::real]\<rparr> 0
   \<and> RedirectedReLU_backward \<lparr>saved_tensors = [\<lparr>shape = [1], data = [0::real]\<rparr>]\<rparr>
         \<lparr>shape = [1], data = [1]\<rparr> = Inr \<lparr>shape = [1], data = [1]\<rparr>
   \<and> (1::real) \<noteq> 1 * (1 / 10)"
  by (simp add: zero_gradient_region_def relu_grad_def RedirectedReLU_backward_def)

text \<open>
  Claim C3, amended. For every saved input tensor and every incoming gradient of the
  same shape, \<^verbatim>\<open>RedirectedReLU.backward\<close> returns a gradient of that shape whose
  element is the incoming one multiplied by one tenth exactly where the saved input is
  strictly negative, and the incoming one unchanged on all other elements, those where
  the input is zero included.
\<close>

theorem RedirectedReLU_backward_scales_negative_inputs:
  fixes x g :: "('a::linordered_field) tensor"
  assumes "saved_tensors c = [x]" and "shape x = shape g"
    and "length (data x) = length (data g)"
  shows "\<exists>r. RedirectedReLU_backward c g = Inr r \<and> shape r = shape g
           \<and> length (data r) = length (data g)
           \<and> (\<forall>i < length (data g).
                 data r ! i = (if data x ! i < 0 then data g ! i * (1 / 10) else data g ! i))"
  using assms by (simp add: RedirectedReLU_backward_def)

theorem RedirectedReLU_backward_scales_negative_inputs_witness:
  "\<exists>r. RedirectedReLU_backward
          \<lparr>saved_tensors = [\<lparr>shape = [3], data = [- 2, 0, 3 :: real]\<rparr>]\<rparr>
          \<lparr>shape = [3], data = [1, 1, 1]\<rparr> = Inr r
        \<and> data r ! 0 = 1 / 10 \<and> data r ! 1 = 1 \<and> data r ! 2 = 1"
proof -
  let ?x = "\<lparr>shape = [3], data = [- 2, 0, 3 :: real]\<rparr>"
  let ?g = "\<lparr>shape = [3], data = [1, 1, 1 :: real]\<rparr>"
  let ?c = "\<lparr>saved_tensors = [?x]\<rparr>"
  have h1: "saved_tensors ?c = [?x]" by simp
  have h2: "shape ?x = shape ?g" by simp
  have h3: "length (data ?x) = length (data ?g)" by simp
  from RedirectedReLU_backward_scales_negative_inputs [OF h1 h2 h3]
  obtain r where r: "RedirectedReLU_backward ?c ?g = Inr r"
    and nth: "\<forall>i < length (data ?g).
                data r ! i = (if data ?x ! i < 0 then data ?g ! i * (1 / 10) else data ?g ! i)"
    by blast
  from nth have "data r ! 0 = 1 / 10" by simp
  moreover from nth have "data r ! 1 = 1" by simp
  moreover from nth have "data r ! 2 = 1" by simp
  ultimately show ?thesis using r by blast
qed

section \<open>Properties of normalize_array\<close>

lemma byte_of_int:
  "\<exists>n::nat. n \<le> 255 \<and> Fin (of_int (k mod 256)) = Fin (of_nat n)"
proof -
  have "0 \<le> k mod 256" and "k mod 256 < 256" by simp_all
  then have "nat (k mod 256) \<le> 255" and "(of_int (k mod 256) :: real) = of_nat (nat (k mod 256))"
    by simp_all
  then show ?thesis by metis
qed

lemma to_uint8_byte: "\<exists>n::nat. n \<le> 255 \<and> to_uint8 x = Fin (of_nat n)"
proof (cases x rule: to_uint8.cases)
  case (1 v)
  then show ?thesis using byte_of_int [of "if v < 0 then \<lceil>v\<rceil> else \<lfloor>v\<rfloor>"] by simp
next
  case (2 v b)
  then show ?thesis using byte_of_int [of "if v < 0 then \<lceil>v\<rceil> else \<lfloor>v\<rfloor>"] by simp
qed (use byte_of_int [of 0] in auto)

lemma to_uint8_clip:
  "\<exists>n::nat. n \<le> 255 \<and> to_uint8 (fl_clip (Fin 0) (Fin 255) x) = Fin (of_nat n)"
  by (rule to_uint8_byte)

lemma prod_list_squeeze_Suc:
  "prod_list (filter (\<lambda>d. d \<noteq> Suc 0) shp) = prod_list (shp :: nat list)"
  by (induction shp) auto

text \<open>
  Claim C8, as stated, fails on an array without elements: it has a numeric type, rank
  one and no NaN, and \<^verbatim>\<open>np.min\<close> raises ValueError on it.
\<close>

theorem normalize_array_empty_counterexample:
  "valid [[]] \<lparr>nd_base = 0, nd_shape = [0], nd_dtype = Floating 64\<rparr>
   \<and> issubdtype_number (nd_dtype \<lparr>nd_base = 0, nd_shape = [0], nd_dtype = Floating 64\<rparr>)
   \<and> length (nd_shape (np_squeeze \<lparr>nd_base = 0, nd_shape = [0], nd_dtype = Floating 64\<rparr>)) \<le> 3
   \<and> \<not> list_ex isnan (buffer [[]] \<lparr>nd_base = 0, nd_shape = [0], nd_dtype = Floating 64\<rparr>)
   \<and> snd (normalize_array [[]] \<lparr>nd_base = 0, nd_shape = [0], nd_dtype = Floating 64\<rparr> None)
       = Inl (ValueError ''zero-size array to reduction operation minimum which has no identity'')"
  by (simp add: valid_def np_squeeze_def buffer_def normalize_array_def np_array_def
      new_array_def np_min_def)

text \<open>
  Claim C8, amended. For every array with at least one element, of numeric type, of rank
  at most 3 after squeezing and without NaN, and for every domain, \<^verbatim>\<open>normalize_array\<close>
  returns an array of type uint8 with the squeezed shape, whose every element is a whole
  number from 0 to 255; and every buffer that existed before the call, the caller's
  included, is unchanged after it.
\<close>

theorem normalize_array_uint8:
  assumes v: "valid h a"
    and num: "issubdtype_number (nd_dtype a)"
    and rank: "length (nd_shape (np_squeeze a)) \<le> 3"
    and nonan: "\<not> list_ex isnan (buffer h a)"
    and nonempty: "buffer h a \<noteq> []"
  shows "\<exists>h' r. normalize_array h a domain = (h', Inr r)
           \<and> nd_dtype r = uint8
           \<and> nd_shape r = nd_shape (np_squeeze a)
           \<and> valid h' r
           \<and> (\<forall>x \<in> set (buffer h' r). \<exists>n::nat. n \<le> 255 \<and> x = Fin (of_nat n))
           \<and> length h \<le> length h' \<and> take (length h) h' = h"
proof -
  obtain x xs where buf: "h ! nd_base a = x # xs"
    using nonempty by (cases "h ! nd_base a") (auto simp: buffer_def)
  have base: "nd_base a < length h" and len: "length (h ! nd_base a) = prod_list (nd_shape a)"
    using v by (auto simp: valid_def)
  show ?thesis
    using assms buf base len to_uint8_clip
    apply (simp add: normalize_array_def Let_def np_array_def new_array_def np_squeeze_def
        np_clip_def astype_uint8_def in_place_def buffer_def np_min_def np_max_def valid_def
        nth_append split: prod.splits option.splits)
    apply (auto simp: nth_append prod_list_squeeze_Suc uint8_def)
    done
qed

theorem normalize_array_uint8_witness:
  "\<exists>h' r. normalize_array [[Fin 0, Fin (1 / 2), Fin 1, Fin (1 / 4)]]
             \<lparr>nd_base = 0, nd_shape = [1, 2, 2], nd_dtype = Floating 32\<rparr> None = (h', Inr r)
          \<and> nd_dtype r = uint8 \<and> nd_shape r = [2, 2]
          \<and> take 1 h' = [[Fin 0, Fin (1 / 2), Fin 1, Fin (1 / 4)]]"
proof -
  let ?h = "[[Fin 0, Fin (1 / 2), Fin 1, Fin (1 / 4)]]"
  let ?a = "\<lparr>nd_base = 0, nd_shape = [1, 2, 2], nd_dtype = Floating 32\<rparr>"
  have h1: "valid ?h ?a" by (simp add: valid_def)
  have h2: "issubdtype_number (nd_dtype ?a)" by simp
  have h3: "length (nd_shape (np_squeeze ?a)) \<le> 3" by (simp add: np_squeeze_def)
  have h4: "\<not> list_ex isnan (buffer ?h ?a)" by (simp add: buffer_def)
  have h5: "buffer ?h ?a \<noteq> []" by (simp add: buffer_def)
  from normalize_array_uint8 [OF h1 h2 h3 h4 h5, of None]
  obtain h' r where "normalize_array ?h ?a None = (h', Inr r)" and "nd_dtype r = uint8"
    and "nd_shape r = nd_shape (np_squeeze ?a)" and "take (length ?h) h' = ?h"
    by blast
  then show ?thesis by (simp add: np_squeeze_def)
qed

lemma normalize_array_errors:
  assumes "normalize_array h a d = (h', Inl e)"
  shows "e = AssertionError
         \<or> e = ValueError ''zero-size array to reduction operation minimum which has no identity''
         \<or> e = ValueError ''zero-size array to reduction operation maximum which has no identity''"
  using assms
  by (auto simp: normalize_array_def Let_def np_min_def np_max_def
      split: prod.splits if_splits sum.splits list.splits)

lemma normalize_all_errors:
  assumes "normalize_all h as d = (h', Inl e)"
  shows "e = AssertionError
         \<or> e = ValueError ''zero-size array to reduction operation minimum which has no identity''
         \<or> e = ValueError ''zero-size array to reduction operation maximum which has no identity''"
  using assms
proof (induction as arbitrary: h h')
  case Nil
  then show ?case by simp
next
  case (Cons a as)
  then show ?case
    by (auto split: prod.splits sum.splits dest: normalize_array_errors)
qed

section \<open>Properties of the data URL\<close>

lemma normalize_example:
  "normalize_array [[Fin 0, Fin (1 / 2), Fin 1, Fin (1 / 4)]]
     \<lparr>nd_base = 0, nd_shape = [1, 2, 2], nd_dtype = Floating 32\<rparr> None
   = ([[Fin 0, Fin (1 / 2), Fin 1, Fin (1 / 4)],
       [Fin 0, Fin (255 / 2), Fin 255, Fin (255 / 4)],
       [Fin 0, Fin (255 / 2), Fin 255, Fin (255 / 4)],
       [Fin 0, Fin 127, Fin 255, Fin 63]],
      Inr \<lparr>nd_base = 3, nd_shape = [2, 2], nd_dtype = UnsignedInteger 8\<rparr>)"
  by (simp add: normalize_array_def Let_def np_array_def new_array_def np_squeeze_def
      np_clip_def astype_uint8_def in_place_def buffer_def np_min_def np_max_def
      fl_minimum_def fl_maximum_def fl_clip_def fl_ne_def fl_sub_def uint8_def clip_dtype_def)

lemma serialize_example:
  "serialize_array example_lib [[Fin 0, Fin (1 / 2), Fin 1, Fin (1 / 4)]]
     \<lparr>nd_base = 0, nd_shape = [1, 2, 2], nd_dtype = Floating 32\<rparr> None ''png'' 90
   = Inr [0, 127, 255, 63]"
  unfolding serialize_array_def normalize_example
  by (simp add: serialize_normalized_array_def buffer_def np_max_def fl_maximum_def
      fl_le_def example_lib_def)

lemma b64_example: "b64encode [0, 127, 255, 63] = ''AH//Pw==''"
  by code_simp

lemma upper_png: "upper ''png'' = ''PNG''"
  by code_simp

text \<open>
  Claim C7, as stated, fails on an array with a single element: \<^verbatim>\<open>normalize_array\<close>
  accepts it and returns an array without axes, on which \<^verbatim>\<open>array.shape[-1]\<close> in
  \<^verbatim>\<open>_serialize_normalized_array\<close> raises IndexError, so that no URL is returned.
\<close>

theorem image_url_single_element_counterexample:
  "snd (normalize_array [[Fin 5]] \<lparr>nd_base = 0, nd_shape = [1, 1], nd_dtype = Floating 32\<rparr> None)
     = Inr \<lparr>nd_base = 3, nd_shape = [], nd_dtype = UnsignedInteger 8\<rparr>
   \<and> image_url example_lib [[Fin 5]] \<lparr>nd_base = 0, nd_shape = [1, 1], nd_dtype = Floating 32\<rparr>
       ''png'' ''data'' 90 None = Inl IndexError"
  by (simp add: image_url_def supported_modes_def serialize_array_def
      serialize_normalized_array_def normalize_array_def Let_def np_array_def new_array_def
      np_squeeze_def np_clip_def astype_uint8_def in_place_def buffer_def np_min_def np_max_def
      fl_minimum_def fl_maximum_def fl_clip_def fl_ne_def fl_sub_def fl_le_def uint8_def
      clip_dtype_def)

text \<open>
  Claim C7, amended. For every array, domain, format and quality for which
  \<^verbatim>\<open>serialize_array\<close> returns bytes, \<^verbatim>\<open>_image_url\<close> with mode \<^verbatim>\<open>data\<close> returns
  exactly \<^verbatim>\<open>data:image/\<close>, the format in upper case, \<^verbatim>\<open>;base64,\<close> and the base64
  encoding of those bytes.
\<close>

theorem image_url_data:
  assumes "serialize_array L h array domain fmt quality = Inr image_data"
  shows "image_url L h array fmt ''data'' quality domain
         = Inr (''data:image/'' @ upper fmt @ '';base64,'' @ b64encode image_data)"
  using assms by (simp add: image_url_def supported_modes_def)

theorem image_url_data_witness:
  "image_url example_lib [[Fin 0, Fin (1 / 2), Fin 1, Fin (1 / 4)]]
     \<lparr>nd_base = 0, nd_shape = [1, 2, 2], nd_dtype = Floating 32\<rparr> ''png'' ''data'' 90 None
   = Inr ''data:image/PNG;base64,AH//Pw==''"
  using image_url_data [OF serialize_example] by (simp only: b64_example upper_png append.simps)

text \<open>
  Claim C9 against the code. The test \<^verbatim>\<open>mode not in supported_modes\<close> is a substring
  test on the string \<^verbatim>\<open>"data"\<close>: every substring of it, such as \<^verbatim>\<open>a\<close>, \<^verbatim>\<open>at\<close> or the
  empty string, is accepted like \<^verbatim>\<open>data\<close> itself and no ValueError is raised.
\<close>

theorem image_url_accepts_substrings_of_data:
  "image_url L h array fmt ''a'' quality domain = image_url L h array fmt ''data'' quality domain
   \<and> image_url L h array fmt [] quality domain = image_url L h array fmt ''data'' quality domain
   \<and> image_url example_lib [[Fin 0, Fin (1 / 2), Fin 1, Fin (1 / 4)]]
       \<lparr>nd_base = 0, nd_shape = [1, 2, 2], nd_dtype = Floating 32\<rparr> ''png'' ''at'' 90 None
     = Inr ''data:image/PNG;base64,AH//Pw=='' "
proof -
  have "image_url example_lib [[Fin 0, Fin (1 / 2), Fin 1, Fin (1 / 4)]]
       \<lparr>nd_base = 0, nd_shape = [1, 2, 2], nd_dtype = Floating 32\<rparr> ''png'' ''at'' 90 None
     = Inr ''data:image/PNG;base64,AH//Pw=='' "
    unfolding image_url_def serialize_example
    by (simp add: supported_modes_def b64_example upper_png del: b64encode.simps)
  then show ?thesis
    by (simp add: image_url_def supported_modes_def)
qed

section \<open>Properties of the image table\<close>

text \<open>
  Claim C10 against the code. With five images and three rows the table gets one column
  and, after the single correction of the row count, four rows: the cells are those of
  the images 0 to 3 and the fifth image has none. The same happens with the default row
  count, the rounded-up square root of five.
\<close>

theorem create_image_table_drops_image:
  "table_rows 5 (Some 3) = [[0], [1], [2], [3]]
   \<and> 4 \<notin> set (concat (table_rows 5 (Some 3)))
   \<and> table_rows 5 None = [[0], [1], [2], [3]]
   \<and> table_rows 3 (Some 5) = [[], [], [], [], [], []]"
  by code_simp

section \<open>Properties of save_images\<close>

lemma do_write_result:
  "(\<exists>m. do_write L w = ([], Some (LibraryError m))) \<or> do_write L w = ([w], None)"
  by (cases "write_fails L w") (simp_all add: do_write_def)

lemma do_writes_error: "snd (do_writes L ws) = Some e \<Longrightarrow> \<exists>m. e = LibraryError m"
  by (induction ws) (auto split: option.splits prod.splits)

lemma do_writes_subset: "set (fst (do_writes L ws)) \<subseteq> set ws"
  by (induction ws) (auto split: option.splits prod.splits)

lemma unsupported_neq [simp]:
  "unsupported_save_type t \<noteq> LibraryError m"
  "unsupported_save_type t \<noteq> AssertionError"
  "unsupported_save_type t \<noteq> IndexError"
  "unsupported_save_type t \<noteq> ValueError ''unpack''"
  "unsupported_save_type t \<noteq> ValueError ''need at least one array to stack''"
  "unsupported_save_type t \<noteq> ValueError ''all input arrays must have the same shape''"
  "unsupported_save_type t
     \<noteq> ValueError ''zero-size array to reduction operation minimum which has no identity''"
  "unsupported_save_type t
     \<noteq> ValueError ''zero-size array to reduction operation maximum which has no identity''"
  by (simp_all add: unsupported_save_type_def)

lemmas unsupported_neq_sym [simp] = unsupported_neq [THEN not_sym]

lemma save_npy_result:
  "snd (save_npy L h images p) \<noteq> Some (unsupported_save_type t)
   \<and> list_all (\<lambda>w. write_kind w = ''npy'') (fst (save_npy L h images p))"
proof (cases images)
  case Nil
  then show ?thesis by (simp add: save_npy_def)
next
  case (Cons a rest)
  let ?w = "Npy (if ends_with ''.npy'' p then p else p @ ''.npy'')
              (length images # nd_shape a) (concat (map (buffer h) images))"
  show ?thesis
    using Cons do_write_result [of L ?w]
    by (auto simp: save_npy_def)
qed

lemma save_png_result:
  "snd (save_png L h images p) \<noteq> Some (unsupported_save_type t)
   \<and> list_all (\<lambda>w. write_kind w = ''png'') (fst (save_png L h images p))"
proof -
  define q where "q = (if py_in ''.png'' p then remove_all ''.png'' p else p)"
  define ws where "ws = map (\<lambda>(i, img). Png (q @ ''_'' @ str_nat i @ ''.png'') (nd_shape img)
                          (buffer h img)) (enumerate 0 images)"
  have kinds: "\<forall>w \<in> set ws. write_kind w = ''png''"
    by (auto simp: ws_def)
  have many: "snd (do_writes L ws) \<noteq> Some (unsupported_save_type t)
      \<and> list_all (\<lambda>w. write_kind w = ''png'') (fst (do_writes L ws))"
    using do_writes_error [of L ws] do_writes_subset [of L ws] kinds
    by (auto simp: list_all_iff)
  let ?w = "Png (q @ ''.png'') (nd_shape (images ! 0)) (buffer h (images ! 0))"
  have one: "snd (do_write L ?w) \<noteq> Some (unsupported_save_type t)
      \<and> list_all (\<lambda>w. write_kind w = ''png'') (fst (do_write L ?w))"
    using do_write_result [of L ?w] by auto
  show ?thesis
    using one many unfolding save_png_def Let_def q_def [symmetric] ws_def [symmetric]
    by (simp only: split: if_splits) simp
qed

lemma numpy_image_to_video_result:
  "snd (numpy_image_to_video L h images fps p d) \<noteq> Some (unsupported_save_type t)
   \<and> list_all (\<lambda>w. write_kind w = ''mp4'') (fst (numpy_image_to_video L h images fps p d))"
proof (cases "normalize_all h images d")
  case (Pair h1 r)
  show ?thesis
  proof (cases r)
    case (Inl e)
    then show ?thesis
      using Pair normalize_all_errors [of h images d h1 e]
      by (auto simp: numpy_image_to_video_def)
  next
    case (Inr ns)
    show ?thesis
    proof (cases ns)
      case Nil
      then show ?thesis using Pair Inr by (simp add: numpy_image_to_video_def)
    next
      case (Cons a rest)
      show ?thesis
      proof (cases "\<exists>hh ww c. nd_shape a = [hh, ww, c]")
        case True
        then obtain hh ww c where s: "nd_shape a = [hh, ww, c]" by blast
        show ?thesis
          using Pair Inr Cons s
            do_write_result [of L "Mp4 p fps (ww, hh) (map (content h1) ns)"]
          by (auto simp: numpy_image_to_video_def)
      next
        case False
        then show ?thesis
          using Pair Inr Cons
          by (auto simp: numpy_image_to_video_def split: list.splits)
      qed
    qed
  qed
qed

lemma numpy_image_to_gif_result:
  "snd (numpy_image_to_gif L h images p d) \<noteq> Some (unsupported_save_type t)
   \<and> list_all (\<lambda>w. write_kind w = ''gif'') (fst (numpy_image_to_gif L h images p d))"
proof (cases "normalize_all h images d")
  case (Pair h1 r)
  show ?thesis
  proof (cases r)
    case (Inl e)
    then show ?thesis
      using Pair normalize_all_errors [of h images d h1 e]
      by (auto simp: numpy_image_to_gif_def)
  next
    case (Inr ns)
    show ?thesis
    proof (cases ns)
      case Nil
      then show ?thesis using Pair Inr by (simp add: numpy_image_to_gif_def)
    next
      case (Cons a rest)
      then show ?thesis
        using Pair Inr do_write_result [of L "Gif p (map (content h1) ns)"]
        by (auto simp: numpy_image_to_gif_def)
    qed
  qed
qed

lemma save_types_distinct:
  "''npy'' \<noteq> ''png''" "''npy'' \<noteq> ''mp4''" "''npy'' \<noteq> ''gif''" "''png'' \<noteq> ''mp4''"
  "''png'' \<noteq> ''gif''" "''mp4'' \<noteq> ''gif''"
  by simp_all

text \<open>
  Claim C6, as stated, fails when an image does not pass the assertions of
  \<^verbatim>\<open>normalize_array\<close>: every image is normalized before the dispatch, so with a save
  type that is none of the four the function raises AssertionError, not ValueError.
\<close>

theorem save_images_assertion_counterexample:
  "after_last_dot ''out.txt'' \<notin> save_types
   \<and> save_images example_lib [[Fin 0, NaN]]
       [\<lparr>nd_base = 0, nd_shape = [2], nd_dtype = Floating 32\<rparr>] ''out.txt'' None 5
     = ([], Some AssertionError)"
  by (simp add: after_last_dot_def save_types_def save_images_def normalize_array_def
      np_array_def new_array_def np_squeeze_def buffer_def)

text \<open>
  Claim C6, amended. When \<^verbatim>\<open>normalize_array\<close> accepts every image, \<^verbatim>\<open>save_images\<close>
  dispatches on what follows the last dot of the path (the whole path when it has no
  dot): for \<^verbatim>\<open>npy\<close>, \<^verbatim>\<open>png\<close>, \<^verbatim>\<open>mp4\<close> and \<^verbatim>\<open>gif\<close> it does what the handler of that
  type does and every file written is of that type; it raises its own ValueError
  (unsupported save type) if and only if the suffix is none of the four, and then no file
  has been written. When \<^verbatim>\<open>normalize_array\<close> rejects an image, its exception is raised
  before the dispatch and no file has been written either.
\<close>

theorem save_images_dispatch:
  "(\<forall>h1 images. normalize_all h images0 domain = (h1, Inr images) \<longrightarrow>
      ((snd (save_images L h images0 save_path domain fps)
          = Some (unsupported_save_type (after_last_dot save_path)))
        = (after_last_dot save_path \<notin> save_types))
      \<and> (after_last_dot save_path \<notin> save_types
           \<longrightarrow> fst (save_images L h images0 save_path domain fps) = [])
      \<and> (after_last_dot save_path \<in> save_types
           \<longrightarrow> list_all (\<lambda>w. write_kind w = after_last_dot save_path)
                 (fst (save_images L h images0 save_path domain fps)))
      \<and> (after_last_dot save_path = ''npy''
           \<longrightarrow> save_images L h images0 save_path domain fps = save_npy L h1 images save_path)
      \<and> (after_last_dot save_path = ''png''
           \<longrightarrow> save_images L h images0 save_path domain fps = save_png L h1 images save_path)
      \<and> (after_last_dot save_path = ''mp4''
           \<longrightarrow> save_images L h images0 save_path domain fps
               = numpy_image_to_video L h1 images fps save_path None)
      \<and> (after_last_dot save_path = ''gif''
           \<longrightarrow> save_images L h images0 save_path domain fps
               = numpy_image_to_gif L h1 images save_path None))
   \<and> (\<forall>h1 e. normalize_all h images0 domain = (h1, Inl e) \<longrightarrow>
        save_images L h images0 save_path domain fps = ([], Some e))"
proof (intro conjI allI impI)
  fix h1 images
  assume ok: "normalize_all h images0 domain = (h1, Inr images)"
  define t where "t = after_last_dot save_path"
  have run: "save_images L h images0 save_path domain fps =
      (if t = ''npy'' then save_npy L h1 images save_path
       else if t = ''png'' then save_png L h1 images save_path
       else if t = ''mp4'' then numpy_image_to_video L h1 images fps save_path None
       else if t = ''gif'' then numpy_image_to_gif L h1 images save_path None
       else ([], Some (unsupported_save_type t)))"
    using ok by (simp add: save_images_def t_def)
  show "(snd (save_images L h images0 save_path domain fps)
          = Some (unsupported_save_type (after_last_dot save_path)))
        = (after_last_dot save_path \<notin> save_types)"
    unfolding run t_def [symmetric]
    using save_npy_result [of L h1 images save_path t]
      save_png_result [of L h1 images save_path t]
      numpy_image_to_video_result [of L h1 images fps save_path None t]
      numpy_image_to_gif_result [of L h1 images save_path None t]
    by (auto simp: save_types_def)
  show "fst (save_images L h images0 save_path domain fps) = []"
    if "after_last_dot save_path \<notin> save_types"
    using that unfolding run t_def [symmetric] by (auto simp: save_types_def)
  show "list_all (\<lambda>w. write_kind w = after_last_dot save_path)
          (fst (save_images L h images0 save_path domain fps))"
    if "after_last_dot save_path \<in> save_types"
    using that unfolding run t_def [symmetric]
    using save_npy_result [of L h1 images save_path t]
      save_png_result [of L h1 images save_path t]
      numpy_image_to_video_result [of L h1 images fps save_path None t]
      numpy_image_to_gif_result [of L h1 images save_path None t]
    by (auto simp: save_types_def)
  show "save_images L h images0 save_path domain fps = save_npy L h1 images save_path"
    if "after_last_dot save_path = ''npy''"
    using that run by (simp add: t_def)
  show "save_images L h images0 save_path domain fps = save_png L h1 images save_path"
    if "after_last_dot save_path = ''png''"
    using that run by (simp add: t_def)
  show "save_images L h images0 save_path domain fps
          = numpy_image_to_video L h1 images fps save_path None"
    if "after_last_dot save_path = ''mp4''"
    using that run by (simp add: t_def)
  show "save_images L h images0 save_path domain fps
          = numpy_image_to_gif L h1 images save_path None"
    if "after_last_dot save_path = ''gif''"
    using that run by (simp add: t_def)
next
  fix h1 e
  assume "normalize_all h images0 domain = (h1, Inl e)"
  then show "save_images L h images0 save_path domain fps = ([], Some e)"
    by (simp add: save_images_def)
qed

theorem save_images_dispatch_witness:
  "save_images example_lib [[Fin 0, Fin (1 / 2), Fin 1, Fin (1 / 4)]]
     [\<lparr>nd_base = 0, nd_shape = [1, 2, 2], nd_dtype = Floating 32\<rparr>] ''out.txt'' None 5
   = ([], Some (unsupported_save_type ''txt''))
   \<and> fst (save_images example_lib [[Fin 0, Fin (1 / 2), Fin 1, Fin (1 / 4)]]
       [\<lparr>nd_base = 0, nd_shape = [1, 2, 2], nd_dtype = Floating 32\<rparr>] ''out.png'' None 5)
     = [Png ''out.png'' [2, 2] [Fin 0, Fin 127, Fin 255, Fin 63]]"
proof -
  let ?h = "[[Fin 0, Fin (1 / 2), Fin 1, Fin (1 / 4)]]"
  let ?a = "\<lparr>nd_base = 0, nd_shape = [1, 2, 2], nd_dtype = Floating 32\<rparr>"
  let ?h1 = "[[Fin 0, Fin (1 / 2), Fin 1, Fin (1 / 4)],
       [Fin 0, Fin (255 / 2), Fin 255, Fin (255 / 4)],
       [Fin 0, Fin (255 / 2), Fin 255, Fin (255 / 4)],
       [Fin 0, Fin 127, Fin 255, Fin 63]]"
  let ?n = "\<lparr>nd_base = 3, nd_shape = [2, 2], nd_dtype = UnsignedInteger 8\<rparr>"
  have ok: "normalize_all ?h [?a] None = (?h1, Inr [?n])"
    unfolding normalize_all.simps normalize_example by simp
  have suffix_txt: "after_last_dot ''out.txt'' = ''txt''" and suffix_png: "after_last_dot ''out.png'' = ''png''"
    by (simp_all add: after_last_dot_def)
  have not_in: "after_last_dot ''out.txt'' \<notin> save_types"
    by (simp add: suffix_txt save_types_def)
  from save_images_dispatch [of ?h "[?a]" None example_lib "''out.txt''" 5] ok not_in
  have "snd (save_images example_lib ?h [?a] ''out.txt'' None 5)
          = Some (unsupported_save_type (after_last_dot ''out.txt''))"
    and "fst (save_images example_lib ?h [?a] ''out.txt'' None 5) = []"
    by blast+
  then have a: "save_images example_lib ?h [?a] ''out.txt'' None 5
                  = ([], Some (unsupported_save_type ''txt''))"
    by (simp add: suffix_txt prod_eq_iff)
  from save_images_dispatch [of ?h "[?a]" None example_lib "''out.png''" 5] ok suffix_png
  have "save_images example_lib ?h [?a] ''out.png'' None 5 = save_png example_lib ?h1 [?n] ''out.png''"
    by blast
  then have b: "fst (save_images example_lib ?h [?a] ''out.png'' None 5)
                  = [Png ''out.png'' [2, 2] [Fin 0, Fin 127, Fin 255, Fin 63]]"
    by (simp add: save_png_def do_write_def example_lib_def buffer_def)
  show ?thesis using a b by simp
qed

end
